theory Spec2Isabelle
  imports Complex_Main
begin

section \<open>JavaScript values\<close>

text \<open>
  The payloads of a frame are whatever \<^verbatim>\<open>JSON.parse\<close> returns. The model keeps them
  as a tree of JavaScript values; numbers are the integers (the code only tests them
  for truthiness and compares close codes and timestamps).
\<close>

datatype jsval =
    Undefined
  | Null
  | JBool bool
  | JNum int
  | JStr string
  | JObj "(string \<times> jsval) list"

text \<open>What \<^verbatim>\<open>if (v)\<close> tests.\<close>

fun truthy :: "jsval \<Rightarrow> bool" where
  "truthy Undefined = False"
| "truthy Null = False"
| "truthy (JBool b) = b"
| "truthy (JNum n) = (n \<noteq> 0)"
| "truthy (JStr s) = (s \<noteq> [])"
| "truthy (JObj kvs) = True"

datatype exn = TypeError string | Error string | SyntaxError string

text \<open>
  Property access \<^verbatim>\<open>v.k\<close>: reading a property of \<^verbatim>\<open>undefined\<close> or \<^verbatim>\<open>null\<close> raises a
  TypeError (the string names the property); a missing property is \<^verbatim>\<open>undefined\<close>.
  The properties that booleans, numbers and strings inherit are not among the names
  the client reads.
\<close>

fun getprop :: "jsval \<Rightarrow> string \<Rightarrow> exn + jsval" where
  "getprop Undefined k = Inl (TypeError k)"
| "getprop Null k = Inl (TypeError k)"
| "getprop (JObj kvs) k = Inr (case map_of kvs k of None \<Rightarrow> Undefined | Some v \<Rightarrow> v)"
| "getprop (JBool b) k = Inr Undefined"
| "getprop (JNum n) k = Inr Undefined"
| "getprop (JStr s) k = Inr Undefined"

text \<open>
  Strict equality \<^verbatim>\<open>===\<close> between a stored value and a value of a freshly parsed
  packet: primitives compare by value, an object is only identical to itself, and a
  freshly parsed object is a new one.
\<close>

fun strict_eq :: "jsval \<Rightarrow> jsval \<Rightarrow> bool" where
  "strict_eq (JObj a) v = False"
| "strict_eq v (JObj b) = False"
| "strict_eq v w = (v = w)"

section \<open>The client state\<close>

subsection \<open>Rooms and users of the Mirror\<close>

text \<open>
  Modelled from the spec: the classes Room, ActiveRoom, ActiveUser and Collection
  (\<^verbatim>\<open>./core/*\<close>, \<^verbatim>\<open>./utils/Collection\<close>) are not part of the sources at hand. The
  spec gives an ActiveUser a voice state (muted, deafened, speaking, handRaised) and
  room permissions (isSpeaker, isMod, isCreator, askedToSpeak), a Room its static
  attributes, and an ActiveRoom in addition a collection of ActiveUser keyed by user
  id and the self-user's state. Fields that \<^verbatim>\<open>wsEvent\<close> assigns from a packet hold
  the raw value.
\<close>

record active_user =
  u_id :: string
  muted :: jsval
  deafened :: jsval
  speaking :: jsval
  handRaised :: jsval
  isSpeaker :: jsval
  isMod :: jsval
  isCreator :: jsval
  askedToSpeak :: jsval

record active_part =
  users :: "(string \<times> active_user) list"
  selfIsSpeaker :: jsval
  audioConnection :: bool

record room =
  r_id :: string
  creatorId :: jsval
  r_static :: jsval
  active :: "active_part option"

subsection \<open>Timers, sockets, notifications\<close>

text \<open>
  A pending timer is its handle, its delay in milliseconds and what it runs. The four
  closures the client hands to \<^verbatim>\<open>setTimeout\<close>/\<^verbatim>\<open>setInterval\<close> are the constructors
  of \<open>task\<close>; \<open>ReplyTimeout f\<close> is \<^verbatim>\<open>() => errCallback("Reply timed out.")\<close> for
  the error continuation \<open>f\<close>.
\<close>

datatype task = ReplyTimeout nat | ConnectionTimeout | Reconnect | Heartbeat

type_synonym timer = "nat \<times> int \<times> task"

datatype readyState = CONNECTING | OPEN | CLOSING | CLOSED

datatype opcode =
    AUTH_REPLY | NEW_TOKENS | FETCH_DONE | USER_JOIN_ROOM | USER_LEFT_ROOM
  | ACTIVE_SPEAKER_CHANGE | MUTE_CHANGED | DEAFEN_CHANGED | NEW_CHAT_MSG | MSG_DELETED
  | JOINED_PEER | JOINED_SPEAKER | NOW_SPEAKER | HAND_RAISED | SPEAKER_ADDED
  | SPEAKER_REMOVED | LEFT_ROOM | MOD_CHANGED | NEW_CREATOR
  | OtherOp string

text \<open>
  The constants of \<^verbatim>\<open>OPCodes\<close> (\<^verbatim>\<open>./Constants\<close>) are missing: an inbound operation
  code is the \<^verbatim>\<open>case\<close> of the \<^verbatim>\<open>switch\<close> it selects, \<open>OtherOp\<close> with the code's
  text when it selects none; an outbound frame names its constant.
\<close>

datatype outframe =
    Ping
  | EnvelopeA string jsval string
  | EnvelopeB string jsval string

text \<open>An inbound envelope: the fields \<^verbatim>\<open>wsEvent\<close> reads, \<open>Undefined\<close> or \<open>None\<close> when absent.
  The correlation ids \<^verbatim>\<open>ref\<close> and \<^verbatim>\<open>fetchId\<close> are strings, as the client sends them.
  \<open>pk_delta\<close> is the voice-state delta that \<^verbatim>\<open>d\<close> carries, as
  \<^verbatim>\<open>ActiveRoom._updateVoiceStates\<close> reads it (see below).\<close>

record observation =
  ob_speaking :: bool
  ob_muted :: bool
  ob_deafened :: bool

record packet =
  pk_op :: opcode
  pk_p :: jsval
  pk_d :: jsval
  pk_e :: jsval
  pk_ref :: "string option"
  pk_fetchId :: "string option"
  pk_delta :: "(string \<times> observation) list"

text \<open>
  The arguments of an emitted event. Users and rooms are named by their id; the
  concatenations \<^verbatim>\<open>"WS close: " + code\<close> and the reconnect debug line keep their
  parts.
\<close>

datatype evarg =
    AVal jsval
  | AErr exn
  | ANull
  | AUser string
  | ARoom string
  | ACache
  | AFrame outframe
  | AStr string
  | ANum int
  | APacket packet

type_synonym event = "string \<times> evarg list"

text \<open>
  A registration of the Pending-Request Table: the array
  \<^verbatim>\<open>[callback, errCallback, timer]\<close>. Continuations are the caller's closures and
  are named by a number; the model records every invocation with its argument in
  \<open>calls\<close> and takes a continuation to return without touching the client.
\<close>

record registration =
  onSuccess :: nat
  onError :: nat
  timer :: nat

record client =
  opt_autoReconnect :: bool
  opt_connectionTimeout :: int
  opt_callbackTimeout :: int
  opt_logUnhandledPackets :: bool
  opt_pingInterval :: int
  token_token :: jsval
  accessToken :: jsval
  refreshToken :: jsval
  callbacks :: "(string \<times> registration list) list"
  vdc_recvTransportOptions :: jsval
  vdc_sendTransportOptions :: jsval
  vdc_routerRtpCapabilities :: jsval
  roomObjs :: "room list"
  rooms :: "(string \<times> nat) list"
  currentRoom :: "nat option"
  ws :: "nat option"
  connecting :: bool
  ready :: bool
  lastPingAck :: bool
  lastPingSent :: "int option"
  lastPingReceived :: "int option"
  latency :: "int option"
  reconnectInterval :: int
  connectAttempts :: int
  pingInterval :: "nat option"
  user :: jsval
  sockets :: "readyState list"
  timers :: "timer list"
  nextTimer :: nat
  events :: "event list"
  calls :: "(nat \<times> jsval) list"
  sent :: "(nat \<times> outframe) list"
  rawListeners :: nat
  console :: "packet list"
  httpRequests :: "jsval list"
  audioDisconnects :: "string list"

text \<open>
  \<open>ws\<close> and \<open>currentRoom\<close> are references: an index into \<open>sockets\<close> (every
  WebSocket ever created, with its ready state) and into \<open>roomObjs\<close> (every room
  object); \<open>rooms\<close> is the collection, from a room id to its object. \<open>latency\<close> is
  \<open>None\<close> for \<^verbatim>\<open>Infinity\<close>. \<open>events\<close>, \<open>calls\<close>, \<open>sent\<close>, \<open>console\<close>,
  \<open>httpRequests\<close> and \<open>audioDisconnects\<close> record what the client does to the outside,
  oldest first.

  \<^verbatim>\<open>emit\<close> is inherited from Node's EventEmitter: the model records the emission and
  takes it to return, which is what Node does when a listener for the event exists or
  the event is not \<^verbatim>\<open>"error"\<close>; the model therefore describes a client on which an
  \<^verbatim>\<open>"error"\<close> listener is registered.
\<close>

definition emit :: "string \<Rightarrow> evarg list \<Rightarrow> client \<Rightarrow> client" where
  "emit name args s = s\<lparr>events := events s @ [(name, args)]\<rparr>"

definition invoke :: "nat \<Rightarrow> jsval \<Rightarrow> client \<Rightarrow> client" where
  "invoke f arg s = s\<lparr>calls := calls s @ [(f, arg)]\<rparr>"

definition setTimer :: "task \<Rightarrow> int \<Rightarrow> client \<Rightarrow> nat \<times> client" where
  "setTimer t delay s =
     (nextTimer s,
      s\<lparr>timers := timers s @ [(nextTimer s, delay, t)], nextTimer := Suc (nextTimer s)\<rparr>)"

definition clearTimer :: "nat \<Rightarrow> client \<Rightarrow> client" where
  "clearTimer h s = s\<lparr>timers := filter (\<lambda>t. fst t \<noteq> h) (timers s)\<rparr>"

definition pending :: "client \<Rightarrow> nat \<Rightarrow> bool" where
  "pending s h = (h \<in> fst ` set (timers s))"

section \<open>The Pending-Request Table\<close>

text \<open>
  \<^verbatim>\<open>this.callbacks\<close> is an array used as a dictionary from correlation id to the list
  of registrations. Only keys that are array indices are visited by \<^verbatim>\<open>forEach\<close>
  (see \<open>disconnect\<close>). Correlation ids are strings other than the names of the
  properties every array inherits.
\<close>

definition tbl_get :: "(string \<times> 'a) list \<Rightarrow> string \<Rightarrow> 'a option" where
  "tbl_get t k = map_of t k"

definition tbl_set :: "string \<Rightarrow> 'a \<Rightarrow> (string \<times> 'a) list \<Rightarrow> (string \<times> 'a) list" where
  "tbl_set k v t =
     (if k \<in> fst ` set t then map (\<lambda>kv. if fst kv = k then (k, v) else kv) t
      else t @ [(k, v)])"

definition waitForRef :: "string \<Rightarrow> nat \<Rightarrow> nat \<Rightarrow> client \<Rightarrow> client" where
  "waitForRef rf callback errCallback s =
     (let s1 = (if tbl_get (callbacks s) rf = None
                then s\<lparr>callbacks := tbl_set rf [] (callbacks s)\<rparr> else s);
          (h, s2) = setTimer (ReplyTimeout errCallback) (opt_callbackTimeout s1) s1;
          regs = (case tbl_get (callbacks s2) rf of None \<Rightarrow> [] | Some r \<Rightarrow> r)
      in s2\<lparr>callbacks :=
               tbl_set rf (regs @ [\<lparr>onSuccess = callback, onError = errCallback, timer = h\<rparr>])
                 (callbacks s2)\<rparr>)"

text \<open>
  One of the two blocks that end \<^verbatim>\<open>wsEvent\<close>:
  \<^verbatim>\<open>if (id && this.callbacks[id]) { if (packet.e) all f[1](packet.e); if (payload) all f[0](payload); all clearTimeout(f[2]) }\<close>.
\<close>

definition settle :: "string option \<Rightarrow> jsval \<Rightarrow> jsval \<Rightarrow> client \<Rightarrow> client" where
  "settle key err payload s =
     (case key of
        None \<Rightarrow> s
      | Some k \<Rightarrow>
          if k = [] then s
          else (case tbl_get (callbacks s) k of
                  None \<Rightarrow> s
                | Some regs \<Rightarrow>
                    let s1 = (if truthy err then fold (\<lambda>f. invoke (onError f) err) regs s else s);
                        s2 = (if truthy payload
                              then fold (\<lambda>f. invoke (onSuccess f) payload) regs s1 else s1)
                    in fold (\<lambda>f. clearTimer (timer f)) regs s2))"

definition resolveRefs :: "packet \<Rightarrow> client \<Rightarrow> client" where
  "resolveRefs pkt s =
     settle (pk_fetchId pkt) (pk_e pkt) (pk_d pkt)
       (settle (pk_ref pkt) (pk_e pkt) (pk_p pkt) s)"

section \<open>The Mirror's collections\<close>

text \<open>
  Modelled from the spec: Collection (\<^verbatim>\<open>./utils/Collection\<close> is missing) is keyed by
  id and never holds two entries of one id; \<^verbatim>\<open>get\<close> of an unknown key is
  \<^verbatim>\<open>undefined\<close>, \<^verbatim>\<open>add\<close> supersedes an entry of the same id and returns the added
  object, \<^verbatim>\<open>remove\<close> drops the entry of the object's id (and does nothing for
  \<^verbatim>\<open>undefined\<close>). Room objects live in \<open>roomObjs\<close>; the collection maps an id to
  the object's index.
\<close>

definition rooms_get :: "client \<Rightarrow> jsval \<Rightarrow> nat option" where
  "rooms_get s key =
     (case key of
        JStr k \<Rightarrow>
          (case map_of (rooms s) k of
             None \<Rightarrow> None
           | Some a \<Rightarrow> if a < length (roomObjs s) then Some a else None)
      | _ \<Rightarrow> None)"

definition users_get :: "(string \<times> active_user) list \<Rightarrow> jsval \<Rightarrow> active_user option" where
  "users_get us key = (case key of JStr k \<Rightarrow> map_of us k | _ \<Rightarrow> None)"

definition users_put :: "active_user \<Rightarrow> (string \<times> active_user) list \<Rightarrow> (string \<times> active_user) list" where
  "users_put u us = tbl_set (u_id u) u us"

definition users_remove :: "string \<Rightarrow> (string \<times> active_user) list \<Rightarrow> (string \<times> active_user) list" where
  "users_remove k us = filter (\<lambda>kv. fst kv \<noteq> k) us"

definition rooms_add :: "room \<Rightarrow> client \<Rightarrow> client" where
  "rooms_add r s =
     s\<lparr>roomObjs := roomObjs s @ [r],
       rooms := tbl_set (r_id r) (length (roomObjs s)) (rooms s)\<rparr>"

definition set_room :: "nat \<Rightarrow> room \<Rightarrow> client \<Rightarrow> client" where
  "set_room a r s = s\<lparr>roomObjs := (roomObjs s)[a := r]\<rparr>"

definition set_active :: "nat \<Rightarrow> active_part \<Rightarrow> client \<Rightarrow> client" where
  "set_active a ap s = set_room a ((roomObjs s ! a)\<lparr>active := Some ap\<rparr>) s"

text \<open>
  Modelled from the spec: the constructors \<^verbatim>\<open>new ActiveUser(data, room, client)\<close> and
  \<^verbatim>\<open>new ActiveRoom(data, client)\<close> are missing. A new user has the id of its data
  and the default voice state; a new active room has the id and creator of
  \<^verbatim>\<open>data.room\<close> and no users yet. Ids are strings.
\<close>

definition newActiveUser :: "jsval \<Rightarrow> exn + active_user" where
  "newActiveUser data =
     (case getprop data ''id'' of
        Inl x \<Rightarrow> Inl x
      | Inr (JStr i) \<Rightarrow>
          Inr \<lparr>u_id = i, muted = JBool False, deafened = JBool False, speaking = JBool False,
               handRaised = JBool False, isSpeaker = JBool False, isMod = JBool False,
               isCreator = JBool False, askedToSpeak = JBool False\<rparr>
      | Inr _ \<Rightarrow> Inl (Error ''Missing object id''))"

definition newActiveRoom :: "jsval \<Rightarrow> exn + room" where
  "newActiveRoom data =
     (case getprop data ''room'' of
        Inl x \<Rightarrow> Inl x
      | Inr r \<Rightarrow>
          (case getprop r ''id'' of
             Inl x \<Rightarrow> Inl x
           | Inr (JStr i) \<Rightarrow>
               (case getprop r ''creatorId'' of
                  Inl x \<Rightarrow> Inl x
                | Inr c \<Rightarrow>
                    Inr \<lparr>r_id = i, creatorId = c, r_static = r,
                         active = Some \<lparr>users = [], selfIsSpeaker = JBool False,
                                        audioConnection = False\<rparr>\<rparr>)
           | Inr _ \<Rightarrow> Inl (Error ''Missing object id'')))"

section \<open>The Voice-State Reconciler\<close>

text \<open>
  Modelled from the spec: \<^verbatim>\<open>ActiveRoom._updateVoiceStates\<close> is missing
  (\<^verbatim>\<open>./core/ActiveRoom\<close>). Section 4.4: for each user id present in the delta, in the
  delta's order, compare with the Mirror's voice state of that user, update the
  Mirror, and put the user on the "speaking changed" list only if the speaking flag
  differs from before, likewise for "mute changed" and "deafen changed"; users not
  in the delta are left untouched. A delta entry for a user the room does not hold
  has nothing to compare with and is passed over.
\<close>

fun updateVoiceStates ::
  "(string \<times> observation) list \<Rightarrow> (string \<times> active_user) list \<Rightarrow>
     (string \<times> active_user) list \<times> string list \<times> string list \<times> string list" where
  "updateVoiceStates [] us = (us, [], [], [])"
| "updateVoiceStates ((uid, ob) # delta) us =
     (case map_of us uid of
        None \<Rightarrow> updateVoiceStates delta us
      | Some u \<Rightarrow>
          (case updateVoiceStates delta
                  (tbl_set uid
                     (u\<lparr>speaking := JBool (ob_speaking ob), muted := JBool (ob_muted ob),
                        deafened := JBool (ob_deafened ob)\<rparr>) us) of
             (us', sp, mu, de) \<Rightarrow>
               (us',
                (if speaking u \<noteq> JBool (ob_speaking ob) then uid # sp else sp),
                (if muted u \<noteq> JBool (ob_muted ob) then uid # mu else mu),
                (if deafened u \<noteq> JBool (ob_deafened ob) then uid # de else de))))"

text \<open>
  The two notions the reconciler's properties are stated with: an entry of the delta
  \<open>differs\<close> in a flag when the room holds the user and the observed flag is not
  the stored one; \<open>observed\<close> is the user with the three observed flags stored.
\<close>

definition differs ::
  "(active_user \<Rightarrow> jsval) \<Rightarrow> (observation \<Rightarrow> bool) \<Rightarrow> (string \<times> active_user) list \<Rightarrow>
     string \<times> observation \<Rightarrow> bool" where
  "differs sel obf us = (\<lambda>(uid, ob). case map_of us uid of None \<Rightarrow> False | Some u \<Rightarrow> sel u \<noteq> JBool (obf ob))"

definition observed :: "observation \<Rightarrow> active_user \<Rightarrow> active_user" where
  "observed ob u = u\<lparr>speaking := JBool (ob_speaking ob), muted := JBool (ob_muted ob),
                        deafened := JBool (ob_deafened ob)\<rparr>"

section \<open>The Packet Dispatcher\<close>

text \<open>How a case of the \<^verbatim>\<open>switch\<close> ends: \<^verbatim>\<open>break\<close>, \<^verbatim>\<open>return\<close>, or an exception.\<close>

datatype ctl = Break | Return | Throw exn

definition rd :: "exn + 'a \<Rightarrow> client \<Rightarrow> ('a \<Rightarrow> ctl \<times> client) \<Rightarrow> ctl \<times> client" where
  "rd r s k = (case r of Inl x \<Rightarrow> (Throw x, s) | Inr v \<Rightarrow> k v)"

text \<open>\<^verbatim>\<open>const room = this.rooms.get(packet.d.roomId); if (room) { ... }\<close>\<close>

definition with_room :: "packet \<Rightarrow> client \<Rightarrow> (nat \<Rightarrow> ctl \<times> client) \<Rightarrow> ctl \<times> client" where
  "with_room pkt s body =
     rd (getprop (pk_d pkt) ''roomId'') s
       (\<lambda>rid. case rooms_get s rid of None \<Rightarrow> (Break, s) | Some a \<Rightarrow> body a)"

text \<open>\<^verbatim>\<open>room.users\<close>, \<^verbatim>\<open>room.selfUser\<close> and \<^verbatim>\<open>room._updateVoiceStates\<close> exist on an
  ActiveRoom only; on a plain Room their use raises a TypeError.\<close>

definition with_active :: "nat \<Rightarrow> string \<Rightarrow> client \<Rightarrow> (active_part \<Rightarrow> ctl \<times> client) \<Rightarrow> ctl \<times> client" where
  "with_active a what s k =
     (case active (roomObjs s ! a) of None \<Rightarrow> (Throw (TypeError what), s) | Some ap \<Rightarrow> k ap)"

text \<open>\<^verbatim>\<open>const user = room.users.get(packet.d.userId)\<close> followed by a property access on
  \<open>user\<close>, which raises a TypeError when the room does not hold the user.\<close>

definition with_user ::
  "packet \<Rightarrow> active_part \<Rightarrow> client \<Rightarrow> (active_user \<Rightarrow> ctl \<times> client) \<Rightarrow> ctl \<times> client" where
  "with_user pkt ap s k =
     rd (getprop (pk_d pkt) ''userId'') s
       (\<lambda>uid. case users_get (users ap) uid of
                 None \<Rightarrow> (Throw (TypeError ''user''), s)
               | Some u \<Rightarrow> k u)"

text \<open>\<^verbatim>\<open>room._updateVoiceStates(packet.d)\<close> on the room object at \<open>a\<close>; the callers
  have found it to be an active room.\<close>

definition room_updateVoiceStates :: "nat \<Rightarrow> packet \<Rightarrow> client \<Rightarrow> client \<times> string list \<times> string list \<times> string list" where
  "room_updateVoiceStates a pkt s =
     (case active (roomObjs s ! a) of
        None \<Rightarrow> (s, [], [], [])
      | Some ap \<Rightarrow>
          (case updateVoiceStates (pk_delta pkt) (users ap) of
             (us', sp, mu, de) \<Rightarrow> (set_active a (ap\<lparr>users := us'\<rparr>) s, sp, mu, de)))"

definition self_id :: "client \<Rightarrow> exn + jsval" where
  "self_id s = getprop (user s) ''id''"

definition room_id :: "client \<Rightarrow> nat \<Rightarrow> string" where
  "room_id s a = r_id (roomObjs s ! a)"

definition put_user :: "nat \<Rightarrow> active_part \<Rightarrow> active_user \<Rightarrow> client \<Rightarrow> client" where
  "put_user a ap u s = set_active a (ap\<lparr>users := users_put u (users ap)\<rparr>) s"

subsection \<open>The cases of the switch\<close>

definition case_AUTH_REPLY :: "packet \<Rightarrow> client \<Rightarrow> ctl \<times> client" where
  "case_AUTH_REPLY pkt s =
     (let s1 = s\<lparr>connectAttempts := 0, reconnectInterval := 1000, connecting := False,
                 ready := True, user := pk_p pkt, lastPingAck := True\<rparr>;
          s2 = (case pingInterval s1 of None \<Rightarrow> s1 | Some h \<Rightarrow> clearTimer h s1);
          (h, s3) = setTimer Heartbeat (opt_pingInterval s2) s2;
          s4 = s3\<lparr>pingInterval := Some h\<rparr>
      in (Break, emit ''ready'' [AVal (user s4)] s4))"

definition case_NEW_TOKENS :: "packet \<Rightarrow> client \<Rightarrow> ctl \<times> client" where
  "case_NEW_TOKENS pkt s =
     rd (getprop (pk_d pkt) ''accessToken'') s (\<lambda>atok.
     rd (getprop (pk_d pkt) ''refreshToken'') s (\<lambda>rtok.
       (Break,
        emit ''newTokens'' [AVal (pk_d pkt)]
          (if truthy atok \<and> truthy rtok then s\<lparr>accessToken := atok, refreshToken := rtok\<rparr> else s))))"

definition case_FETCH_DONE :: "packet \<Rightarrow> client \<Rightarrow> ctl \<times> client" where
  "case_FETCH_DONE pkt s =
     rd (getprop (pk_d pkt) ''room'') s (\<lambda>r.
     rd (getprop (pk_d pkt) ''activeSpeakerMap'') s (\<lambda>m.
       if truthy r \<and> truthy m
       then rd (newActiveRoom (pk_d pkt)) s (\<lambda>room.
              (Break, emit ''joinedRoom'' [ARoom (r_id room)] (rooms_add room s)))
       else (Break, s)))"

definition case_USER_JOIN_ROOM :: "packet \<Rightarrow> client \<Rightarrow> ctl \<times> client" where
  "case_USER_JOIN_ROOM pkt s =
     with_room pkt s (\<lambda>a.
     with_active a ''users'' s (\<lambda>ap.
     rd (getprop (pk_d pkt) ''user'') s (\<lambda>data.
     rd (newActiveUser data) s (\<lambda>u.
       (Break,
        emit ''userJoinRoom'' [AUser (u_id u), ARoom (room_id s a)]
          (fst (room_updateVoiceStates a pkt (put_user a ap u s))))))))"

definition case_USER_LEFT_ROOM :: "packet \<Rightarrow> client \<Rightarrow> ctl \<times> client" where
  "case_USER_LEFT_ROOM pkt s =
     with_room pkt s (\<lambda>a.
     with_active a ''users'' s (\<lambda>ap.
     rd (getprop (pk_d pkt) ''userId'') s (\<lambda>uid.
       case users_get (users ap) uid of
         None \<Rightarrow> (Break, emit ''userLeftRoom'' [AVal Undefined, ARoom (room_id s a)] s)
       | Some u \<Rightarrow>
           (Break,
            emit ''userLeftRoom'' [AUser (u_id u), ARoom (room_id s a)]
              (set_active a (ap\<lparr>users := users_remove (u_id u) (users ap)\<rparr>) s)))))"

definition case_ACTIVE_SPEAKER_CHANGE :: "packet \<Rightarrow> client \<Rightarrow> ctl \<times> client" where
  "case_ACTIVE_SPEAKER_CHANGE pkt s =
     with_room pkt s (\<lambda>a.
     with_active a ''_updateVoiceStates'' s (\<lambda>ap.
       case room_updateVoiceStates a pkt s of
         (s1, sp, mu, de) \<Rightarrow>
           (Break,
            fold (\<lambda>u. emit ''deafenChange'' [AUser u, ARoom (room_id s a)]) de
              (fold (\<lambda>u. emit ''muteChange'' [AUser u, ARoom (room_id s a)]) mu
                 (fold (\<lambda>u. emit ''activeSpeakerChange'' [AUser u, ARoom (room_id s a)]) sp s1)))))"

definition case_MUTE_CHANGED :: "packet \<Rightarrow> client \<Rightarrow> ctl \<times> client" where
  "case_MUTE_CHANGED pkt s =
     with_room pkt s (\<lambda>a.
     with_active a ''users'' s (\<lambda>ap.
     with_user pkt ap s (\<lambda>u.
     rd (getprop (pk_d pkt) ''value'') s (\<lambda>v.
       (Break,
        emit ''muteChange'' [AUser (u_id u), ARoom (room_id s a)]
          (put_user a ap (u\<lparr>muted := v\<rparr>) s))))))"

definition case_DEAFEN_CHANGED :: "packet \<Rightarrow> client \<Rightarrow> ctl \<times> client" where
  "case_DEAFEN_CHANGED pkt s =
     with_room pkt s (\<lambda>a.
     with_active a ''users'' s (\<lambda>ap.
     with_user pkt ap s (\<lambda>u.
     rd (getprop (pk_d pkt) ''value'') s (\<lambda>v.
       (Break,
        emit ''deafenChange'' [AUser (u_id u), ARoom (room_id s a)]
          (put_user a ap (u\<lparr>deafened := v\<rparr>) s))))))"

text \<open>\<^verbatim>\<open>new Message(packet.d.msg, this)\<close>: the class is missing; the event carries the
  message data.\<close>

definition case_NEW_CHAT_MSG :: "packet \<Rightarrow> client \<Rightarrow> ctl \<times> client" where
  "case_NEW_CHAT_MSG pkt s =
     rd (getprop (pk_d pkt) ''msg'') s (\<lambda>m. (Break, emit ''newChatMsg'' [AVal m] s))"

text \<open>This case does not look \<^verbatim>\<open>packet.d.roomId\<close> up: it reads \<^verbatim>\<open>this.currentRoom\<close>.\<close>

definition case_MSG_DELETED :: "packet \<Rightarrow> client \<Rightarrow> ctl \<times> client" where
  "case_MSG_DELETED pkt s =
     rd (getprop (pk_d pkt) ''messageId'') s (\<lambda>mid.
       case currentRoom s of
         None \<Rightarrow> (Throw (TypeError ''users''), s)
       | Some a \<Rightarrow>
           with_active a ''users'' s (\<lambda>ap.
           rd (getprop (pk_d pkt) ''deleterId'') s (\<lambda>del.
             (Break,
              emit ''msgDeleted''
                [AVal mid,
                 (case users_get (users ap) del of
                    None \<Rightarrow> AVal Undefined
                  | Some u \<Rightarrow> AUser (u_id u))] s))))"

definition cache_recv :: "packet \<Rightarrow> client \<Rightarrow> client" where
  "cache_recv pkt s =
     (case getprop (pk_d pkt) ''recvTransportOptions'' of
        Inr v \<Rightarrow> if truthy v then s\<lparr>vdc_recvTransportOptions := v\<rparr> else s
      | Inl x \<Rightarrow> s)"

definition cache_send :: "packet \<Rightarrow> client \<Rightarrow> client" where
  "cache_send pkt s =
     (case getprop (pk_d pkt) ''sendTransportOptions'' of
        Inr v \<Rightarrow> if truthy v then s\<lparr>vdc_sendTransportOptions := v\<rparr> else s
      | Inl x \<Rightarrow> s)"

definition cache_router :: "packet \<Rightarrow> client \<Rightarrow> client" where
  "cache_router pkt s =
     (case getprop (pk_d pkt) ''routerRtpCapabilities'' of
        Inr v \<Rightarrow> if truthy v then s\<lparr>vdc_routerRtpCapabilities := v\<rparr> else s
      | Inl x \<Rightarrow> s)"

text \<open>The three helpers above run inside \<^verbatim>\<open>if (room)\<close>, after \<^verbatim>\<open>packet.d.roomId\<close> was
  read, so \<^verbatim>\<open>packet.d\<close> is an object there and the reads cannot raise.\<close>

definition case_JOINED_PEER :: "packet \<Rightarrow> client \<Rightarrow> ctl \<times> client" where
  "case_JOINED_PEER pkt s =
     with_room pkt s (\<lambda>a.
       (Break,
        emit ''joinedAsPeer'' [ARoom (room_id s a), ACache]
          (cache_router pkt (cache_recv pkt s))))"

definition case_JOINED_SPEAKER :: "packet \<Rightarrow> client \<Rightarrow> ctl \<times> client" where
  "case_JOINED_SPEAKER pkt s =
     with_room pkt s (\<lambda>a.
       (Break,
        emit ''joinedAsSpeaker'' [ARoom (room_id s a), ACache]
          (cache_router pkt (cache_send pkt (cache_recv pkt s)))))"

definition case_NOW_SPEAKER :: "packet \<Rightarrow> client \<Rightarrow> ctl \<times> client" where
  "case_NOW_SPEAKER pkt s =
     with_room pkt s (\<lambda>a.
       let s1 = cache_send pkt s in
       with_active a ''selfUser'' s1 (\<lambda>ap.
         (Break,
          emit ''becameSpeaker'' [ARoom (room_id s a), ACache]
            (set_active a (ap\<lparr>selfIsSpeaker := JBool True\<rparr>) s1))))"

definition case_HAND_RAISED :: "packet \<Rightarrow> client \<Rightarrow> ctl \<times> client" where
  "case_HAND_RAISED pkt s =
     with_room pkt s (\<lambda>a.
     with_active a ''users'' s (\<lambda>ap.
     with_user pkt ap s (\<lambda>u.
       (Break,
        emit ''handRaised'' [AUser (u_id u), ARoom (room_id s a)]
          (fst (room_updateVoiceStates a pkt
                  (put_user a ap (u\<lparr>handRaised := JBool True, askedToSpeak := JBool True\<rparr>) s)))))))"

definition case_SPEAKER_ADDED :: "packet \<Rightarrow> client \<Rightarrow> ctl \<times> client" where
  "case_SPEAKER_ADDED pkt s =
     with_room pkt s (\<lambda>a.
     with_active a ''users'' s (\<lambda>ap.
     with_user pkt ap s (\<lambda>u.
       (Break,
        emit ''speakerAdded'' [AUser (u_id u), ARoom (room_id s a)]
          (fst (room_updateVoiceStates a pkt
                  (put_user a ap (u\<lparr>isSpeaker := JBool True\<rparr>) s)))))))"

text \<open>
  \<^verbatim>\<open>if (room.audioConnection && user.id == this.user.id) room.audioConnection.disconnect()\<close>:
  \<^verbatim>\<open>this.user.id\<close> is read only when an audio connection is attached; the call into
  the voice transport is recorded in \<open>audioDisconnects\<close>. Ids are strings.
\<close>

definition audio_disconnect_if_self :: "nat \<Rightarrow> active_part \<Rightarrow> string \<Rightarrow> client \<Rightarrow> (client \<Rightarrow> ctl \<times> client) \<Rightarrow> ctl \<times> client" where
  "audio_disconnect_if_self a ap uid s k =
     (if audioConnection ap
      then rd (self_id s) s (\<lambda>me.
             k (if me = JStr uid
                then s\<lparr>audioDisconnects := audioDisconnects s @ [room_id s a]\<rparr> else s))
      else k s)"

definition case_SPEAKER_REMOVED :: "packet \<Rightarrow> client \<Rightarrow> ctl \<times> client" where
  "case_SPEAKER_REMOVED pkt s =
     with_room pkt s (\<lambda>a.
     with_active a ''users'' s (\<lambda>ap.
     with_user pkt ap s (\<lambda>u.
       audio_disconnect_if_self a ap (u_id u)
         (fst (room_updateVoiceStates a pkt (put_user a ap (u\<lparr>isSpeaker := JBool False\<rparr>) s)))
         (\<lambda>s1. (Break, emit ''speakerRemoved'' [AUser (u_id u), ARoom (room_id s a)] s1)))))"

definition case_LEFT_ROOM :: "packet \<Rightarrow> client \<Rightarrow> ctl \<times> client" where
  "case_LEFT_ROOM pkt s =
     with_room pkt s (\<lambda>a.
     with_active a ''users'' s (\<lambda>ap.
     rd (getprop (pk_d pkt) ''userId'') s (\<lambda>uid.
     rd (getprop (pk_d pkt) ''kicked'') s (\<lambda>kicked.
       let fin = (\<lambda>s1. (Break, emit ''leftRoom'' [ARoom (room_id s a), AVal (JBool (truthy kicked))] s1))
       in if audioConnection ap
          then (case users_get (users ap) uid of
                  None \<Rightarrow> (Throw (TypeError ''id''), s)
                | Some u \<Rightarrow> audio_disconnect_if_self a ap (u_id u) s fin)
          else fin s))))"

text \<open>The one case that leaves \<^verbatim>\<open>wsEvent\<close> by \<^verbatim>\<open>return\<close>.\<close>

definition case_MOD_CHANGED :: "packet \<Rightarrow> client \<Rightarrow> ctl \<times> client" where
  "case_MOD_CHANGED pkt s =
     with_room pkt s (\<lambda>a.
     with_active a ''users'' s (\<lambda>ap.
     with_user pkt ap s (\<lambda>u.
     rd (getprop (pk_d pkt) ''isMod'') s (\<lambda>v.
       if strict_eq (isMod u) v then (Return, s)
       else (Break,
             emit ''modChange'' [AUser (u_id u), ARoom (room_id s a)]
               (put_user a ap (u\<lparr>isMod := v\<rparr>) s))))))"

text \<open>The one room-scoped case without \<^verbatim>\<open>if (room)\<close>.\<close>

definition case_NEW_CREATOR :: "packet \<Rightarrow> client \<Rightarrow> ctl \<times> client" where
  "case_NEW_CREATOR pkt s =
     rd (getprop (pk_d pkt) ''roomId'') s (\<lambda>rid.
       case rooms_get s rid of
         None \<Rightarrow> (Throw (TypeError ''creatorId''), s)
       | Some a \<Rightarrow>
           rd (getprop (pk_d pkt) ''userId'') s (\<lambda>uid.
             (Break, set_room a ((roomObjs s ! a)\<lparr>creatorId := uid\<rparr>) s)))"

definition case_default :: "string \<Rightarrow> packet \<Rightarrow> client \<Rightarrow> ctl \<times> client" where
  "case_default name pkt s =
     (if take 1 name = ''@'' then (Break, emit name [AVal (pk_d pkt)] s)
      else if opt_logUnhandledPackets s then (Break, s\<lparr>console := console s @ [pkt]\<rparr>)
      else (Break, s))"

definition dispatch :: "packet \<Rightarrow> client \<Rightarrow> ctl \<times> client" where
  "dispatch pkt s =
     (case pk_op pkt of
        AUTH_REPLY \<Rightarrow> case_AUTH_REPLY pkt s
      | NEW_TOKENS \<Rightarrow> case_NEW_TOKENS pkt s
      | FETCH_DONE \<Rightarrow> case_FETCH_DONE pkt s
      | USER_JOIN_ROOM \<Rightarrow> case_USER_JOIN_ROOM pkt s
      | USER_LEFT_ROOM \<Rightarrow> case_USER_LEFT_ROOM pkt s
      | ACTIVE_SPEAKER_CHANGE \<Rightarrow> case_ACTIVE_SPEAKER_CHANGE pkt s
      | MUTE_CHANGED \<Rightarrow> case_MUTE_CHANGED pkt s
      | DEAFEN_CHANGED \<Rightarrow> case_DEAFEN_CHANGED pkt s
      | NEW_CHAT_MSG \<Rightarrow> case_NEW_CHAT_MSG pkt s
      | MSG_DELETED \<Rightarrow> case_MSG_DELETED pkt s
      | JOINED_PEER \<Rightarrow> case_JOINED_PEER pkt s
      | JOINED_SPEAKER \<Rightarrow> case_JOINED_SPEAKER pkt s
      | NOW_SPEAKER \<Rightarrow> case_NOW_SPEAKER pkt s
      | HAND_RAISED \<Rightarrow> case_HAND_RAISED pkt s
      | SPEAKER_ADDED \<Rightarrow> case_SPEAKER_ADDED pkt s
      | SPEAKER_REMOVED \<Rightarrow> case_SPEAKER_REMOVED pkt s
      | LEFT_ROOM \<Rightarrow> case_LEFT_ROOM pkt s
      | MOD_CHANGED \<Rightarrow> case_MOD_CHANGED pkt s
      | NEW_CREATOR \<Rightarrow> case_NEW_CREATOR pkt s
      | OtherOp name \<Rightarrow> case_default name pkt s)"

text \<open>
  \<^verbatim>\<open>wsEvent\<close>: the switch, then the two correlation blocks. A \<^verbatim>\<open>return\<close> or an
  exception in the switch leaves the function before the correlation blocks. The
  result is the exception that escapes, if any, and the client as it then is.
\<close>

definition wsEvent :: "packet \<Rightarrow> client \<Rightarrow> exn option \<times> client" where
  "wsEvent pkt s =
     (case dispatch pkt s of
        (Break, s1) \<Rightarrow> (None, resolveRefs pkt s1)
      | (Return, s1) \<Rightarrow> (None, s1)
      | (Throw x, s1) \<Rightarrow> (Some x, s1))"

section \<open>The Connection Manager\<close>

text \<open>
  What the environment answers during one callback: \<^verbatim>\<open>Date.now()\<close>,
  \<^verbatim>\<open>Math.random()\<close> (a number in \<open>[0, 1)\<close>; the arithmetic on it is done in the
  reals, not in binary floating point), whether \<^verbatim>\<open>ws.close\<close> raises, and the next
  \<^verbatim>\<open>uuid()\<close>.
\<close>

record env =
  now :: int
  random :: real
  closeError :: "exn option"
  uuid :: string

definition reset :: "client \<Rightarrow> client" where
  "reset s =
     s\<lparr>connecting := False, ready := False, lastPingAck := True,
       vdc_recvTransportOptions := Undefined, vdc_sendTransportOptions := Undefined,
       vdc_routerRtpCapabilities := Undefined,
       callbacks := [], lastPingReceived := None, lastPingSent := None, latency := None\<rparr>"

definition hardReset :: "client \<Rightarrow> client" where
  "hardReset s =
     (reset s)\<lparr>reconnectInterval := 1000, connectAttempts := 0, ws := None,
               pingInterval := None\<rparr>"

definition initWS :: "client \<Rightarrow> client" where
  "initWS s = s\<lparr>sockets := sockets s @ [CONNECTING], ws := Some (length (sockets s))\<rparr>"

definition sendWS :: "env \<Rightarrow> string \<Rightarrow> jsval \<Rightarrow> string option \<Rightarrow> client \<Rightarrow> string option \<times> client" where
  "sendWS en opc data rf s =
     (case ws s of
        None \<Rightarrow> (None, s)
      | Some i \<Rightarrow>
          if sockets s ! i = OPEN
          then (let r = (case rf of None \<Rightarrow> uuid en | Some x \<Rightarrow> if x = [] then uuid en else x);
                    fr = EnvelopeA opc data r
                in (Some r, emit ''debug'' [AFrame fr] (s\<lparr>sent := sent s @ [(i, fr)]\<rparr>)))
          else (None, s))"

definition sendWSLegacy :: "env \<Rightarrow> string \<Rightarrow> jsval \<Rightarrow> string option \<Rightarrow> client \<Rightarrow> string option \<times> client" where
  "sendWSLegacy en opc data rf s =
     (case ws s of
        None \<Rightarrow> (None, s)
      | Some i \<Rightarrow>
          if sockets s ! i = OPEN
          then (let r = (case rf of None \<Rightarrow> uuid en | Some x \<Rightarrow> if x = [] then uuid en else x);
                    fr = EnvelopeB opc data r
                in (Some r, emit ''debug'' [AFrame fr] (s\<lparr>sent := sent s @ [(i, fr)]\<rparr>)))
          else (None, s))"

definition auth :: "env \<Rightarrow> client \<Rightarrow> client" where
  "auth en s =
     snd (sendWS en ''AUTH''
            (JObj [(''accessToken'', accessToken s), (''refreshToken'', refreshToken s),
                   (''deafened'', JBool False), (''muted'', JBool False),
                   (''reconnectToVoice'', JBool False)])
            None s)"

text \<open>
  \<^verbatim>\<open>connect\<close>. The existing-connection test emits an error and goes on; the HTTP
  exchange for a raw API key is recorded in \<open>httpRequests\<close> and answered later
  (\<open>bootstrap_end\<close>).
\<close>

definition connect :: "client \<Rightarrow> client" where
  "connect s =
     (let s1 = (case ws s of
                  None \<Rightarrow> s
                | Some i \<Rightarrow>
                    if sockets s ! i \<noteq> CLOSED
                    then emit ''error'' [AErr (Error ''Existing connection detected'')] s
                    else s);
          s2 = s1\<lparr>connectAttempts := connectAttempts s1 + 1, connecting := True\<rparr>;
          s3 = (if truthy (token_token s2)
                then s2\<lparr>httpRequests := httpRequests s2 @ [JObj [(''apiKey'', token_token s2)]]\<rparr>
                else initWS s2)
      in snd (setTimer ConnectionTimeout (opt_connectionTimeout s3) s3))"


text \<open>
  A key of \<^verbatim>\<open>this.callbacks\<close> is visited by \<^verbatim>\<open>this.callbacks.forEach\<close> only when it
  is an array index: the decimal text, without leading zeros, of a number below
  \<open>2^32 - 1\<close>.
\<close>

definition is_digit :: "char \<Rightarrow> bool" where
  "is_digit c = (48 \<le> (of_char c :: nat) \<and> (of_char c :: nat) \<le> 57)"

definition dec_value :: "string \<Rightarrow> nat" where
  "dec_value k = foldl (\<lambda>n c. 10 * n + ((of_char c :: nat) - 48)) 0 k"

definition is_array_index :: "string \<Rightarrow> bool" where
  "is_array_index k =
     (k \<noteq> [] \<and> list_all is_digit k \<and> (k = ''0'' \<or> take 1 k \<noteq> ''0'')
      \<and> dec_value k < 4294967295)"

text \<open>
  \<^verbatim>\<open>ws.close(...)\<close> belongs to the \<^verbatim>\<open>ws\<close> library: when it returns, a socket that
  was not closed is closing.
\<close>

definition socket_close :: "nat \<Rightarrow> client \<Rightarrow> client" where
  "socket_close i s =
     s\<lparr>sockets := (sockets s)[i := (if sockets s ! i = CLOSED then CLOSED else CLOSING)]\<rparr>"

datatype reconnect = ReconnectAuto | ReconnectTrue | ReconnectFalsy

definition clearCallbackTimers :: "client \<Rightarrow> client" where
  "clearCallbackTimers s =
     fold (\<lambda>kv st. if is_array_index (fst kv)
                    then fold (\<lambda>f. clearTimer (timer f)) (snd kv) st else st)
       (callbacks s) s"

text \<open>
  \<^verbatim>\<open>disconnect(options, error)\<close>, statement by statement:
  \<open>clearPingInterval\<close> is \<^verbatim>\<open>if (this.pingInterval) clearInterval(this.pingInterval)\<close>,
  \<open>clearCallbackTimers\<close> the \<^verbatim>\<open>this.callbacks.forEach\<close> loop, \<open>closeSocket\<close> the
  block \<^verbatim>\<open>if (ws) { try { ws.close(...) } catch (err) { emit("error", err) } emit("disconnect", error || null) }\<close>
  for the socket \<open>w\<close> the client had on entry, and \<open>queueReconnect\<close> the branch
  that schedules the retry and then grows the interval.
\<close>

definition clearPingInterval :: "client \<Rightarrow> client" where
  "clearPingInterval s = (case pingInterval s of None \<Rightarrow> s | Some h \<Rightarrow> clearTimer h s)"

definition closeSocket :: "env \<Rightarrow> evarg option \<Rightarrow> nat option \<Rightarrow> client \<Rightarrow> client" where
  "closeSocket en error w s =
     (case w of
        None \<Rightarrow> s
      | Some i \<Rightarrow>
          emit ''disconnect'' [case error of None \<Rightarrow> ANull | Some e \<Rightarrow> e]
            (case closeError en of
               None \<Rightarrow> socket_close i s
             | Some x \<Rightarrow> emit ''error'' [AErr x] s))"

definition queueReconnect :: "env \<Rightarrow> client \<Rightarrow> client" where
  "queueReconnect en s =
     (snd (setTimer Reconnect (reconnectInterval s)
             (emit ''debug''
                [AStr ''Queueing reconnect in '', ANum (reconnectInterval s),
                 AStr ''ms | Attempt '', ANum (connectAttempts s)] s)))
       \<lparr>reconnectInterval :=
          min (round (real_of_int (reconnectInterval s) * (random en * 2 + 1))) 60000\<rparr>"

definition disconnect :: "env \<Rightarrow> reconnect \<Rightarrow> evarg option \<Rightarrow> client \<Rightarrow> client" where
  "disconnect en opt error s =
     (let s5 = reset (closeSocket en error (ws s)
                 (clearCallbackTimers (clearPingInterval
                    (s\<lparr>ws := None, ready := False, connecting := False\<rparr>))))
      in if opt = ReconnectAuto \<and> opt_autoReconnect s5 then queueReconnect en s5
         else if opt = ReconnectFalsy then hardReset s5
         else s5)"

text \<open>
  For the statements about \<open>disconnect\<close>: what \<open>closeSocket\<close> does to the sockets
  and which events it emits.
\<close>

definition closed_sockets :: "env \<Rightarrow> nat option \<Rightarrow> readyState list \<Rightarrow> readyState list" where
  "closed_sockets en w sk =
     (case w of
        None \<Rightarrow> sk
      | Some i \<Rightarrow>
          (case closeError en of
             None \<Rightarrow> sk[i := (if sk ! i = CLOSED then CLOSED else CLOSING)]
           | Some x \<Rightarrow> sk))"

definition close_events :: "env \<Rightarrow> evarg option \<Rightarrow> nat option \<Rightarrow> event list" where
  "close_events en error w =
     (case w of
        None \<Rightarrow> []
      | Some i \<Rightarrow>
          (case closeError en of None \<Rightarrow> [] | Some x \<Rightarrow> [(''error'', [AErr x])])
          @ [(''disconnect'', [case error of None \<Rightarrow> ANull | Some e \<Rightarrow> e])])"

text \<open>The callback of \<^verbatim>\<open>setInterval\<close> that the AUTH_REPLY case installs. After the
  \<^verbatim>\<open>if\<close> it goes on to \<^verbatim>\<open>this.ws.send("ping")\<close> whether or not it disconnected.\<close>

definition missed_pong :: exn where
  "missed_pong = Error ''Server didn't acknowledge previous ping, possible lost connection''"

definition heartbeat :: "env \<Rightarrow> client \<Rightarrow> exn option \<times> client" where
  "heartbeat en s =
     (let s1 = (if \<not> lastPingAck s
                then disconnect en ReconnectAuto (Some (AErr missed_pong)) s
                else s);
          s2 = s1\<lparr>lastPingAck := False, lastPingSent := Some (now en)\<rparr>
      in case ws s2 of
           None \<Rightarrow> (Some (TypeError ''send''), s2)
         | Some i \<Rightarrow> (None, s2\<lparr>sent := sent s2 @ [(i, Ping)]\<rparr>))"

definition connectionTimeout :: "env \<Rightarrow> client \<Rightarrow> client" where
  "connectionTimeout en s =
     (if connecting s
      then disconnect en ReconnectAuto (Some (AErr (Error ''Connection timeout''))) s
      else s)"

text \<open>
  A timer fires: a cleared timer never does, a timeout fires once, the heartbeat
  interval stays until cleared.
\<close>

definition runTask :: "env \<Rightarrow> task \<Rightarrow> client \<Rightarrow> exn option \<times> client" where
  "runTask en t s =
     (case t of
        ReplyTimeout errCallback \<Rightarrow> (None, invoke errCallback (JStr ''Reply timed out.'') s)
      | ConnectionTimeout \<Rightarrow> (None, connectionTimeout en s)
      | Reconnect \<Rightarrow> (None, connect s)
      | Heartbeat \<Rightarrow> heartbeat en s)"

definition fireTimer :: "env \<Rightarrow> nat \<Rightarrow> client \<Rightarrow> exn option \<times> client" where
  "fireTimer en h s =
     (case find (\<lambda>t. fst t = h) (timers s) of
        None \<Rightarrow> (None, s)
      | Some (h', delay, t) \<Rightarrow>
          runTask en t (if t = Heartbeat then s else clearTimer h s))"

subsection \<open>The socket's listeners\<close>

datatype frame = Pong | Json packet | Malformed

definition on_open :: "env \<Rightarrow> nat \<Rightarrow> client \<Rightarrow> client" where
  "on_open en i s = auth en (s\<lparr>sockets := (sockets s)[i := OPEN]\<rparr>)"

definition on_message :: "env \<Rightarrow> frame \<Rightarrow> client \<Rightarrow> exn option \<times> client" where
  "on_message en m s =
     (case m of
        Pong \<Rightarrow>
          (None,
           s\<lparr>lastPingAck := True, lastPingReceived := Some (now en),
             latency := Some (now en - (case lastPingSent s of None \<Rightarrow> 0 | Some t \<Rightarrow> t))\<rparr>)
      | Malformed \<Rightarrow> (Some (SyntaxError ''JSON.parse''), s)
      | Json pkt \<Rightarrow>
          wsEvent pkt (if rawListeners s > 0 then emit ''rawWS'' [APacket pkt] s else s))"

definition on_error :: "env \<Rightarrow> evarg option \<Rightarrow> string \<Rightarrow> client \<Rightarrow> client" where
  "on_error en err msg s =
     disconnect en ReconnectAuto err
       (if msg \<noteq> [] then emit ''debug'' [AStr (''WS error: '' @ msg)] s else s)"



section \<open>Construction\<close>

text \<open>
  The constructor with the default options: a string token is a raw API key, an
  object carries the access and refresh tokens; \<^verbatim>\<open>hardReset\<close> fills in the session
  fields. \<open>user\<close> and \<open>currentRoom\<close> are not assigned yet.
\<close>

definition blank :: client where
  "blank =
     \<lparr>opt_autoReconnect = True, opt_connectionTimeout = 30000, opt_callbackTimeout = 2000,
      opt_logUnhandledPackets = False, opt_pingInterval = 8000,
      token_token = Undefined, accessToken = Undefined, refreshToken = Undefined,
      callbacks = [],
      vdc_recvTransportOptions = Undefined, vdc_sendTransportOptions = Undefined,
      vdc_routerRtpCapabilities = Undefined,
      roomObjs = [], rooms = [], currentRoom = None, ws = None,
      connecting = False, ready = False, lastPingAck = False,
      lastPingSent = None, lastPingReceived = None, latency = None,
      reconnectInterval = 0, connectAttempts = 0, pingInterval = None, user = Undefined,
      sockets = [], timers = [], nextTimer = 0, events = [], calls = [], sent = [],
      rawListeners = 0, console = [], httpRequests = [], audioDisconnects = []\<rparr>"

definition constructor :: "jsval \<Rightarrow> exn + client" where
  "constructor token =
     (if \<not> truthy token then Inl (Error ''Token not specified'')
      else (case token of
              JStr t \<Rightarrow> Inr (hardReset (blank\<lparr>token_token := JStr t\<rparr>))
            | _ \<Rightarrow>
                (case (getprop token ''token'', getprop token ''accessToken'',
                       getprop token ''refreshToken'') of
                   (Inr t, Inr a, Inr r) \<Rightarrow>
                     Inr (hardReset (blank\<lparr>token_token := t, accessToken := a, refreshToken := r\<rparr>))
                 | _ \<Rightarrow> Inr (hardReset blank))))"

section \<open>Concrete clients and frames\<close>

text \<open>A client constructed from a token pair, and an environment.\<close>

definition client0 :: client where
  "client0 = hardReset (blank\<lparr>accessToken := JStr ''access'', refreshToken := JStr ''refresh''\<rparr>)"

definition env0 :: env where
  "env0 = \<lparr>now = 5000, random = 1 / 2, closeError = None, uuid = ''u-1''\<rparr>"

text \<open>A request waiting under the correlation id \<open>r1\<close> with the continuations 0
  (success) and 1 (error), and a reply to it that carries a payload and no error.\<close>

definition waiting_r1 :: client where
  "waiting_r1 = waitForRef ''r1'' 0 1 client0"

definition reply_ok :: packet where
  "reply_ok = \<lparr>pk_op = OtherOp ''reply'', pk_p = JStr ''ok'', pk_d = Undefined, pk_e = Undefined,
               pk_ref = Some ''r1'', pk_fetchId = None, pk_delta = []\<rparr>"

text \<open>A second request registered under the same id, with the continuations 2 and 3.\<close>

definition waiting_twice :: client where
  "waiting_twice = waitForRef ''r1'' 2 3 waiting_r1"

text \<open>A client in the active room \<open>A\<close> with the users \<open>u1\<close> and \<open>u2\<close>, both silent, and
  a delta in which \<open>u1\<close> speaks and \<open>u2\<close> does not.\<close>

definition plain_user :: "string \<Rightarrow> active_user" where
  "plain_user i =
     \<lparr>u_id = i, muted = JBool False, deafened = JBool False, speaking = JBool False,
      handRaised = JBool False, isSpeaker = JBool False, isMod = JBool False,
      isCreator = JBool False, askedToSpeak = JBool False\<rparr>"

definition room_A :: room where
  "room_A =
     \<lparr>r_id = ''A'', creatorId = JStr ''u1'', r_static = Null,
      active = Some \<lparr>users = [(''u1'', plain_user ''u1''), (''u2'', plain_user ''u2'')],
                     selfIsSpeaker = JBool False, audioConnection = False\<rparr>\<rparr>"

definition in_room_A :: client where
  "in_room_A = client0\<lparr>roomObjs := [room_A], rooms := [(''A'', 0)], currentRoom := Some 0\<rparr>"

definition u1_speaks :: packet where
  "u1_speaks =
     \<lparr>pk_op = ACTIVE_SPEAKER_CHANGE, pk_p = Undefined,
      pk_d = JObj [(''roomId'', JStr ''A'')], pk_e = Undefined,
      pk_ref = None, pk_fetchId = None,
      pk_delta = [(''u1'', \<lparr>ob_speaking = True, ob_muted = False, ob_deafened = False\<rparr>),
                  (''u2'', \<lparr>ob_speaking = False, ob_muted = False, ob_deafened = False\<rparr>)]\<rparr>"

text \<open>
  A session: the client connects, the socket opens, the server answers the AUTH frame,
  the heartbeat fires once and sends its first ping. The timer of the connection
  timeout has handle 0 and the heartbeat has handle 1.
\<close>

definition auth_reply :: packet where
  "auth_reply = \<lparr>pk_op = AUTH_REPLY, pk_p = JObj [(''id'', JStr ''bot'')], pk_d = Undefined,
     pk_e = Undefined, pk_ref = None, pk_fetchId = None, pk_delta = []\<rparr>"

definition connected :: client where
  "connected = on_open env0 0 (connect client0)"

definition authenticated :: client where
  "authenticated = snd (wsEvent auth_reply connected)"

definition pinged :: client where
  "pinged = snd (fireTimer env0 1 authenticated)"

text \<open>Packets that name the unknown room \<open>B\<close>.\<close>

definition new_creator_unknown :: packet where
  "new_creator_unknown = \<lparr>pk_op = NEW_CREATOR, pk_p = Undefined,
     pk_d = JObj [(''roomId'', JStr ''B''), (''userId'', JStr ''u2'')],
     pk_e = Undefined, pk_ref = None, pk_fetchId = None, pk_delta = []\<rparr>"

definition msg_deleted_unknown :: packet where
  "msg_deleted_unknown = \<lparr>pk_op = MSG_DELETED, pk_p = Undefined,
     pk_d = JObj [(''roomId'', JStr ''B''), (''messageId'', JStr ''m1''),
                  (''deleterId'', JStr ''u1'')],
     pk_e = Undefined, pk_ref = None, pk_fetchId = None, pk_delta = []\<rparr>"

text \<open>A request waiting under \<open>r1\<close> in room \<open>A\<close>, and two MOD_CHANGED frames that carry
  that correlation id: one repeats the moderator flag \<open>u1\<close> already has, one changes it.\<close>

definition waiting_in_room_A :: client where
  "waiting_in_room_A = waitForRef ''r1'' 0 1 in_room_A"

definition mod_unchanged :: packet where
  "mod_unchanged = \<lparr>pk_op = MOD_CHANGED, pk_p = Undefined,
     pk_d = JObj [(''roomId'', JStr ''A''), (''userId'', JStr ''u1''), (''isMod'', JBool False)],
     pk_e = Undefined, pk_ref = None, pk_fetchId = Some ''r1'', pk_delta = []\<rparr>"

definition mod_changed :: packet where
  "mod_changed = \<lparr>pk_op = MOD_CHANGED, pk_p = Undefined,
     pk_d = JObj [(''roomId'', JStr ''A''), (''userId'', JStr ''u1''), (''isMod'', JBool True)],
     pk_e = Undefined, pk_ref = None, pk_fetchId = Some ''r1'', pk_delta = []\<rparr>"



text \<open>A later moment, and an environment in which \<^verbatim>\<open>ws.close\<close> raises.\<close>

definition env1 :: env where
  "env1 = \<lparr>now = 5040, random = 1 / 2, closeError = None, uuid = ''u-2''\<rparr>"



section \<open>Lemmas on tables and timers\<close>

lemma map_of_replace:
  "map_of (map (\<lambda>kv. if fst kv = k then (k, v) else kv) t) k' =
     (if k' = k then (if map_of t k = None then None else Some v) else map_of t k')"
  by (induction t) auto

lemma map_of_tbl_set: "map_of (tbl_set k v t) k' = (if k' = k then Some v else map_of t k')"
proof (cases "k \<in> fst ` set t")
  case True
  then have "map_of t k \<noteq> None" by (simp add: map_of_eq_None_iff)
  with True show ?thesis by (auto simp: tbl_set_def map_of_replace)
next
  case False
  then have "map_of t k = None" by (simp add: map_of_eq_None_iff)
  with False show ?thesis by (simp add: tbl_set_def map_add_def split: option.splits)
qed

lemma tbl_get_tbl_set: "tbl_get (tbl_set k v t) k' = (if k' = k then Some v else tbl_get t k')"
  by (simp add: tbl_get_def map_of_tbl_set)

lemma fold_invoke:
  "fold (\<lambda>f. invoke (g f) v) regs s = s\<lparr>calls := calls s @ map (\<lambda>f. (g f, v)) regs\<rparr>"
  by (induction regs arbitrary: s) (simp_all add: invoke_def)

lemma fold_clearTimer:
  "fold (\<lambda>f. clearTimer (timer f)) regs s =
     s\<lparr>timers := filter (\<lambda>t. fst t \<notin> timer ` set regs) (timers s)\<rparr>"
  by (induction regs arbitrary: s) (auto simp: clearTimer_def intro!: filter_cong)

lemma settle_hit:
  "k \<noteq> [] \<Longrightarrow> tbl_get (callbacks s) k = Some regs \<Longrightarrow>
   settle (Some k) err pl s =
     s\<lparr>calls := calls s @ (if truthy err then map (\<lambda>f. (onError f, err)) regs else [])
                        @ (if truthy pl then map (\<lambda>f. (onSuccess f, pl)) regs else []),
       timers := filter (\<lambda>t. fst t \<notin> timer ` set regs) (timers s)\<rparr>"
  by (simp add: settle_def fold_invoke fold_clearTimer)

lemma settle_None: "settle None err pl s = s"
  by (simp add: settle_def)

lemma resolveRefs_one:
  assumes "k \<noteq> []" "tbl_get (callbacks s) k = Some regs"
    and "pk_ref pkt = Some k \<and> pk_fetchId pkt = None \<and> pl = pk_p pkt
         \<or> pk_ref pkt = None \<and> pk_fetchId pkt = Some k \<and> pl = pk_d pkt"
  shows "resolveRefs pkt s =
     s\<lparr>calls := calls s @ (if truthy (pk_e pkt) then map (\<lambda>f. (onError f, pk_e pkt)) regs else [])
                        @ (if truthy pl then map (\<lambda>f. (onSuccess f, pl)) regs else []),
       timers := filter (\<lambda>t. fst t \<notin> timer ` set regs) (timers s)\<rparr>"
  using assms by (auto simp: resolveRefs_def settle_hit settle_None)



lemma fireTimer_reply:
  "find (\<lambda>t. fst t = h) (timers s) = Some (h, d, ReplyTimeout f) \<Longrightarrow>
   fireTimer en h s =
     (None, s\<lparr>timers := filter (\<lambda>t. fst t \<noteq> h) (timers s),
              calls := calls s @ [(f, JStr ''Reply timed out.'')]\<rparr>)"
  by (simp add: fireTimer_def runTask_def clearTimer_def invoke_def)

lemma waitForRef_eq:
  "waitForRef k cb ecb s0 =
     s0\<lparr>callbacks := tbl_set k ((case tbl_get (callbacks s0) k of None \<Rightarrow> [] | Some r \<Rightarrow> r)
                          @ [\<lparr>onSuccess = cb, onError = ecb, timer = nextTimer s0\<rparr>])
                        (if tbl_get (callbacks s0) k = None then tbl_set k [] (callbacks s0)
                         else callbacks s0),
        timers := timers s0 @ [(nextTimer s0, opt_callbackTimeout s0, ReplyTimeout ecb)],
        nextTimer := Suc (nextTimer s0)\<rparr>"
  by (auto simp: waitForRef_def setTimer_def Let_def tbl_get_tbl_set split: option.splits)


lemma client0_eq:
  "client0 = blank\<lparr>accessToken := JStr ''access'', refreshToken := JStr ''refresh'',
       lastPingAck := True, reconnectInterval := 1000\<rparr>"
  by (simp add: client0_def hardReset_def reset_def blank_def)

lemma constructor_client0:
  "constructor (JObj [(''accessToken'', JStr ''access''), (''refreshToken'', JStr ''refresh'')])
     = Inr client0"
  by (simp add: constructor_def client0_def blank_def)

lemma waiting_r1_eq:
  "waiting_r1 =
     client0\<lparr>callbacks := [(''r1'', [\<lparr>onSuccess = 0, onError = 1, timer = 0\<rparr>])],
       timers := [(0, 2000, ReplyTimeout 1)], nextTimer := 1\<rparr>"
  by (simp add: waiting_r1_def waitForRef_eq client0_eq blank_def tbl_get_def tbl_set_def)

lemma waiting_twice_eq:
  "waiting_twice =
     client0\<lparr>callbacks := [(''r1'', [\<lparr>onSuccess = 0, onError = 1, timer = 0\<rparr>,
                                      \<lparr>onSuccess = 2, onError = 3, timer = 1\<rparr>])],
       timers := [(0, 2000, ReplyTimeout 1), (1, 2000, ReplyTimeout 3)], nextTimer := 2\<rparr>"
  by (simp add: waiting_twice_def waitForRef_eq waiting_r1_eq client0_eq blank_def tbl_get_def
      tbl_set_def)

section \<open>The Pending-Request Table: one registration\<close>




section \<open>The Pending-Request Table: fan-out\<close>

text \<open>
  Claim C4, as the code has it. Let several pairs be registered under one non-empty
  correlation id. A single reply for that id invokes the error continuation of every
  pair (in registration order) if \<^verbatim>\<open>e\<close> is truthy and the success continuation of
  every pair if the payload is truthy, and afterwards no timer of any of the pairs is
  pending. A timeout is per registration: the timer of one pair invokes the error
  continuation of that pair only, leaves the table as it is and leaves the timers of
  the other pairs as they were.
\<close>

theorem fanout_reply_and_timeout:
  fixes f :: registration and en :: env
  assumes key: "k \<noteq> []" "tbl_get (callbacks s) k = Some regs"
    and envelope: "pk_ref pkt = Some k \<and> pk_fetchId pkt = None \<and> pl = pk_p pkt
              \<or> pk_ref pkt = None \<and> pk_fetchId pkt = Some k \<and> pl = pk_d pkt"
    and mem: "f \<in> set regs"
    and fnd: "find (\<lambda>t. fst t = timer f) (timers s) = Some (timer f, d, ReplyTimeout (onError f))"
  shows "calls (resolveRefs pkt s) =
           calls s @ (if truthy (pk_e pkt) then map (\<lambda>f. (onError f, pk_e pkt)) regs else [])
                   @ (if truthy pl then map (\<lambda>f. (onSuccess f, pl)) regs else [])
    \<and> list_all (\<lambda>g. \<not> pending (resolveRefs pkt s) (timer g)) regs
    \<and> calls (snd (fireTimer en (timer f) s)) = calls s @ [(onError f, JStr ''Reply timed out.'')]
    \<and> callbacks (snd (fireTimer en (timer f) s)) = callbacks s
    \<and> list_all (\<lambda>g. timer g = timer f \<or>
              pending (snd (fireTimer en (timer f) s)) (timer g) = pending s (timer g)) regs"
proof (intro conjI)
  show "calls (resolveRefs pkt s) =
           calls s @ (if truthy (pk_e pkt) then map (\<lambda>f. (onError f, pk_e pkt)) regs else [])
                   @ (if truthy pl then map (\<lambda>f. (onSuccess f, pl)) regs else [])"
    by (simp add: resolveRefs_one [OF key envelope])
  show "list_all (\<lambda>g. \<not> pending (resolveRefs pkt s) (timer g)) regs"
    by (auto simp: resolveRefs_one [OF key envelope] pending_def list_all_iff)
  show "calls (snd (fireTimer en (timer f) s)) = calls s @ [(onError f, JStr ''Reply timed out.'')]"
    by (simp add: fireTimer_reply [OF fnd])
  show "callbacks (snd (fireTimer en (timer f) s)) = callbacks s"
    by (simp add: fireTimer_reply [OF fnd])
  show "list_all (\<lambda>g. timer g = timer f \<or>
              pending (snd (fireTimer en (timer f) s)) (timer g) = pending s (timer g)) regs"
    by (auto simp: fireTimer_reply [OF fnd] pending_def list_all_iff)
qed

text \<open>
  Claim C4 as stated fails for the timeout: with two pairs under \<open>r1\<close>, the first
  pair's timer invokes the error continuation 1 only; the second pair's continuation
  3 is not invoked and its timer stays pending.
\<close>

theorem fanout_timeout_fires_one:
  "calls (snd (fireTimer env0 0 waiting_twice)) = [(1, JStr ''Reply timed out.'')]
   \<and> timers (snd (fireTimer env0 0 waiting_twice)) = [(1, 2000, ReplyTimeout 3)]"
  by (simp add: waiting_twice_eq client0_eq blank_def fireTimer_def runTask_def invoke_def
      clearTimer_def)

theorem fanout_witness:
  "tbl_get (callbacks waiting_twice) ''r1''
      = Some [\<lparr>onSuccess = 0, onError = 1, timer = 0\<rparr>, \<lparr>onSuccess = 2, onError = 3, timer = 1\<rparr>]
   \<and> calls (resolveRefs reply_ok waiting_twice) = [(0, JStr ''ok''), (2, JStr ''ok'')]
   \<and> \<not> pending (resolveRefs reply_ok waiting_twice) 0
   \<and> \<not> pending (resolveRefs reply_ok waiting_twice) 1
   \<and> calls (snd (fireTimer env0 0 waiting_twice)) = [(1, JStr ''Reply timed out.'')]
   \<and> pending (snd (fireTimer env0 0 waiting_twice)) 1"
proof -
  let ?f = "\<lparr>onSuccess = 0, onError = 1, timer = 0\<rparr>"
  let ?regs = "[?f, \<lparr>onSuccess = 2, onError = 3, timer = 1\<rparr>]"
  have h1: "''r1'' \<noteq> []" by simp
  have h2: "tbl_get (callbacks waiting_twice) ''r1'' = Some ?regs"
    by (simp add: waiting_twice_eq tbl_get_def)
  have h3: "pk_ref reply_ok = Some ''r1'' \<and> pk_fetchId reply_ok = None \<and> pk_p reply_ok = pk_p reply_ok
            \<or> pk_ref reply_ok = None \<and> pk_fetchId reply_ok = Some ''r1'' \<and> pk_p reply_ok = pk_d reply_ok"
    by (simp add: reply_ok_def)
  have h4: "?f \<in> set ?regs" by simp
  have h5: "find (\<lambda>t. fst t = timer ?f) (timers waiting_twice)
       = Some (timer ?f, 2000, ReplyTimeout (onError ?f))"
    by (simp add: waiting_twice_eq)
  have p: "pk_e reply_ok = Undefined" "pk_p reply_ok = JStr ''ok''"
    by (simp_all add: reply_ok_def)
  have c: "calls waiting_twice = []" "pending waiting_twice 1"
    by (simp_all add: waiting_twice_eq client0_eq blank_def pending_def)
  show ?thesis
    using h2 c fanout_reply_and_timeout [OF h1 h2 h3 h4 h5, of env0]
    by (simp add: p)
qed

section \<open>The Voice-State Reconciler and the active-speaker-change case\<close>

lemma settle_fields:
  "events (settle key err pl s) = events s"
  "roomObjs (settle key err pl s) = roomObjs s"
  "rooms (settle key err pl s) = rooms s"
  "reconnectInterval (settle key err pl s) = reconnectInterval s"
  "connectAttempts (settle key err pl s) = connectAttempts s"
  by (simp_all add: settle_def fold_invoke fold_clearTimer Let_def split: option.splits)

lemma resolveRefs_fields:
  "events (resolveRefs pkt s) = events s"
  "roomObjs (resolveRefs pkt s) = roomObjs s"
  "rooms (resolveRefs pkt s) = rooms s"
  "reconnectInterval (resolveRefs pkt s) = reconnectInterval s"
  "connectAttempts (resolveRefs pkt s) = connectAttempts s"
  by (simp_all add: resolveRefs_def settle_fields)

lemma differs_tbl_set:
  "k \<noteq> uid \<Longrightarrow> differs sel obf (tbl_set uid u us) (k, ob) = differs sel obf us (k, ob)"
  by (simp add: differs_def map_of_tbl_set)

lemma filter_differs_tbl_set:
  "uid \<notin> fst ` set delta \<Longrightarrow>
   filter (differs sel obf (tbl_set uid u us)) delta = filter (differs sel obf us) delta"
proof (rule filter_cong)
  fix p assume mem: "p \<in> set delta" and nin: "uid \<notin> fst ` set delta"
  obtain k ob where p: "p = (k, ob)" by (cases p)
  from mem nin have "k \<noteq> uid" by (force simp: p)
  then show "differs sel obf (tbl_set uid u us) p = differs sel obf us p"
    by (simp add: p differs_tbl_set)
qed simp

lemma uvs_lists:
  "distinct (map fst delta) \<Longrightarrow>
   updateVoiceStates delta us = (us', sp, mu, de) \<Longrightarrow>
     sp = map fst (filter (differs speaking ob_speaking us) delta)
   \<and> mu = map fst (filter (differs muted ob_muted us) delta)
   \<and> de = map fst (filter (differs deafened ob_deafened us) delta)"
proof (induction delta arbitrary: us us' sp mu de)
  case Nil
  then show ?case by simp
next
  case (Cons p delta)
  obtain uid ob where p: "p = (uid, ob)" by (cases p)
  from Cons.prems(1) have nin: "uid \<notin> fst ` set delta" and dist: "distinct (map fst delta)"
    by (auto simp: p)
  show ?case
  proof (cases "map_of us uid")
    case None
    with Cons.prems(2) have "updateVoiceStates delta us = (us', sp, mu, de)" by (simp add: p)
    from Cons.IH [OF dist this] None show ?thesis by (simp add: p differs_def)
  next
    case (Some u)
    let ?us2 = "tbl_set uid (u\<lparr>speaking := JBool (ob_speaking ob), muted := JBool (ob_muted ob),
                        deafened := JBool (ob_deafened ob)\<rparr>) us"
    obtain us2' sp2 mu2 de2 where rec: "updateVoiceStates delta ?us2 = (us2', sp2, mu2, de2)"
      by (cases "updateVoiceStates delta ?us2") auto
    from Cons.IH [OF dist rec] have ih:
      "sp2 = map fst (filter (differs speaking ob_speaking us) delta)"
      "mu2 = map fst (filter (differs muted ob_muted us) delta)"
      "de2 = map fst (filter (differs deafened ob_deafened us) delta)"
      by (simp_all add: filter_differs_tbl_set [OF nin])
    from Cons.prems(2) Some rec ih show ?thesis
      by (auto simp: p differs_def)
  qed
qed

lemma uvs_fst_Cons:
  "fst (updateVoiceStates ((k, ob) # delta) us) =
     (case map_of us k of
        None \<Rightarrow> fst (updateVoiceStates delta us)
      | Some u \<Rightarrow> fst (updateVoiceStates delta (tbl_set k (observed ob u) us)))"
  by (simp add: observed_def split: option.splits prod.splits)

lemma uvs_untouched:
  "uid \<notin> fst ` set delta \<Longrightarrow> map_of (fst (updateVoiceStates delta us)) uid = map_of us uid"
proof (induction delta arbitrary: us)
  case Nil
  then show ?case by simp
next
  case (Cons p delta)
  obtain k ob where p: "p = (k, ob)" by (cases p)
  from Cons.prems have ne: "uid \<noteq> k" and nin: "uid \<notin> fst ` set delta" by (auto simp: p)
  show ?case
    unfolding p uvs_fst_Cons using Cons.IH [OF nin] ne
    by (simp add: map_of_tbl_set split: option.splits)
qed

lemma uvs_updated:
  "distinct (map fst delta) \<Longrightarrow> (uid, ob) \<in> set delta \<Longrightarrow> map_of us uid = Some u \<Longrightarrow>
   map_of (fst (updateVoiceStates delta us)) uid = Some (observed ob u)"
proof (induction delta arbitrary: us)
  case Nil
  then show ?case by simp
next
  case (Cons p delta)
  obtain k ob' where p: "p = (k, ob')" by (cases p)
  from Cons.prems(1) have nin: "k \<notin> fst ` set delta" and dist: "distinct (map fst delta)"
    by (auto simp: p)
  show ?case
  proof (cases "k = uid")
    case True
    with Cons.prems(2) nin have ob: "ob' = ob" by (force simp: p)
    from True nin have "uid \<notin> fst ` set delta" by simp
    from uvs_untouched [OF this] Cons.prems(3) True ob show ?thesis
      unfolding p uvs_fst_Cons by (simp add: map_of_tbl_set)
  next
    case False
    with Cons.prems(2) have mem: "(uid, ob) \<in> set delta" by (simp add: p)
    from False Cons.prems(3) have "\<And>v. map_of (tbl_set k v us) uid = Some u"
      by (simp add: map_of_tbl_set)
    from Cons.IH [OF dist mem this] Cons.IH [OF dist mem Cons.prems(3)] show ?thesis
      unfolding p uvs_fst_Cons by (simp split: option.splits)
  qed
qed


lemma fold_emit:
  "fold (\<lambda>u. emit name (g u)) xs s = s\<lparr>events := events s @ map (\<lambda>u. (name, g u)) xs\<rparr>"
  by (induction xs arbitrary: s) (simp_all add: emit_def)

lemma rooms_get_SomeD: "rooms_get s rid = Some a \<Longrightarrow> a < length (roomObjs s)"
  by (auto simp: rooms_get_def split: jsval.splits option.splits if_splits)

lemma rooms_get_cong:
  "rooms s' = rooms s \<Longrightarrow> length (roomObjs s') = length (roomObjs s) \<Longrightarrow>
   rooms_get s' rid = rooms_get s rid"
  by (simp add: rooms_get_def split: jsval.splits option.splits)

text \<open>
  Claim C2. Let an ACTIVE_SPEAKER_CHANGE packet name a room of the Mirror that is an
  active room, with a delta that has one entry per user id. Then \<^verbatim>\<open>wsEvent\<close> returns
  normally and emits, after the events already emitted, one \<open>activeSpeakerChange\<close>
  for each delta entry whose speaking flag differs from the flag the Mirror held
  before this packet, in the delta's order, then likewise one \<open>muteChange\<close> and one
  \<open>deafenChange\<close> per entry whose mute or deafen flag differs, and nothing else. The
  room stays in the Mirror; users that the delta does not mention are as before, and
  users it mentions hold the observed flags. Since the client before the packet is
  arbitrary, this holds for every delta of a sequence.
\<close>

theorem voice_state_changes:
  fixes pkt :: packet and s :: client
  assumes op: "pk_op pkt = ACTIVE_SPEAKER_CHANGE"
    and rid: "getprop (pk_d pkt) ''roomId'' = Inr rid"
    and room: "rooms_get s rid = Some a"
    and act: "active (roomObjs s ! a) = Some ap"
    and dist: "distinct (map fst (pk_delta pkt))"
  defines "s' \<equiv> snd (wsEvent pkt s)" and "rm \<equiv> ARoom (room_id s a)"
  shows "fst (wsEvent pkt s) = None
    \<and> events s' = events s
        @ map (\<lambda>u. (''activeSpeakerChange'', [AUser u, rm]))
            (map fst (filter (differs speaking ob_speaking (users ap)) (pk_delta pkt)))
        @ map (\<lambda>u. (''muteChange'', [AUser u, rm]))
            (map fst (filter (differs muted ob_muted (users ap)) (pk_delta pkt)))
        @ map (\<lambda>u. (''deafenChange'', [AUser u, rm]))
            (map fst (filter (differs deafened ob_deafened (users ap)) (pk_delta pkt)))
    \<and> rooms_get s' rid = Some a
    \<and> (\<exists>ap'. active (roomObjs s' ! a) = Some ap'
          \<and> (\<forall>uid. uid \<notin> fst ` set (pk_delta pkt) \<longrightarrow> map_of (users ap') uid = map_of (users ap) uid)
          \<and> (\<forall>uid ob u. (uid, ob) \<in> set (pk_delta pkt) \<and> map_of (users ap) uid = Some u \<longrightarrow>
                map_of (users ap') uid = Some (observed ob u)))"
proof -
  obtain us' sp mu de where uvs: "updateVoiceStates (pk_delta pkt) (users ap) = (us', sp, mu, de)"
    by (cases "updateVoiceStates (pk_delta pkt) (users ap)") auto
  from uvs_lists [OF dist uvs] have lists:
    "sp = map fst (filter (differs speaking ob_speaking (users ap)) (pk_delta pkt))"
    "mu = map fst (filter (differs muted ob_muted (users ap)) (pk_delta pkt))"
    "de = map fst (filter (differs deafened ob_deafened (users ap)) (pk_delta pkt))"
    by simp_all
  have us': "us' = fst (updateVoiceStates (pk_delta pkt) (users ap))" by (simp add: uvs)
  have len: "a < length (roomObjs s)" using room by (rule rooms_get_SomeD)
  let ?s1 = "set_active a (ap\<lparr>users := us'\<rparr>) s"
  let ?d = "?s1\<lparr>events := events s
        @ map (\<lambda>u. (''activeSpeakerChange'', [AUser u, rm])) sp
        @ map (\<lambda>u. (''muteChange'', [AUser u, rm])) mu
        @ map (\<lambda>u. (''deafenChange'', [AUser u, rm])) de\<rparr>"
  have disp: "dispatch pkt s = (Break, ?d)"
    by (simp add: dispatch_def op case_ACTIVE_SPEAKER_CHANGE_def with_room_def rd_def rid room
        with_active_def act room_updateVoiceStates_def uvs fold_emit rm_def set_active_def
        set_room_def)
  have ws: "wsEvent pkt s = (None, resolveRefs pkt ?d)"
    by (simp add: wsEvent_def disp)
  have s'_eq: "s' = resolveRefs pkt ?d" by (simp add: s'_def ws)
  have ev: "events s' = events ?d" by (simp only: s'_eq resolveRefs_fields)
  have ro: "roomObjs s' = (roomObjs s)[a := (roomObjs s ! a)\<lparr>active := Some (ap\<lparr>users := us'\<rparr>)\<rparr>]"
    by (simp add: s'_eq resolveRefs_fields set_active_def set_room_def)
  have rs: "rooms s' = rooms s"
    by (simp add: s'_eq resolveRefs_fields set_active_def set_room_def)
  have c1: "fst (wsEvent pkt s) = None" by (simp add: ws)
  have c2: "events s' = events s
        @ map (\<lambda>u. (''activeSpeakerChange'', [AUser u, rm]))
            (map fst (filter (differs speaking ob_speaking (users ap)) (pk_delta pkt)))
        @ map (\<lambda>u. (''muteChange'', [AUser u, rm]))
            (map fst (filter (differs muted ob_muted (users ap)) (pk_delta pkt)))
        @ map (\<lambda>u. (''deafenChange'', [AUser u, rm]))
            (map fst (filter (differs deafened ob_deafened (users ap)) (pk_delta pkt)))"
    by (simp add: ev lists)
  have c3: "rooms_get s' rid = Some a"
    using room rooms_get_cong [of s' s rid] by (simp add: rs ro)
  have act': "active (roomObjs s' ! a) = Some (ap\<lparr>users := us'\<rparr>)"
    using len by (simp add: ro)
  have c4: "\<forall>uid. uid \<notin> fst ` set (pk_delta pkt) \<longrightarrow> map_of us' uid = map_of (users ap) uid"
    by (simp add: us' uvs_untouched)
  have c5: "\<forall>uid ob u. (uid, ob) \<in> set (pk_delta pkt) \<and> map_of (users ap) uid = Some u \<longrightarrow>
                map_of us' uid = Some (observed ob u)"
    using uvs_updated [OF dist] by (auto simp: us')
  from c1 c2 c3 act' c4 c5 show ?thesis by simp
qed

theorem voice_state_changes_witness:
  "pk_op u1_speaks = ACTIVE_SPEAKER_CHANGE
   \<and> getprop (pk_d u1_speaks) ''roomId'' = Inr (JStr ''A'')
   \<and> rooms_get in_room_A (JStr ''A'') = Some 0
   \<and> distinct (map fst (pk_delta u1_speaks))
   \<and> fst (wsEvent u1_speaks in_room_A) = None
   \<and> events (snd (wsEvent u1_speaks in_room_A))
       = [(''activeSpeakerChange'', [AUser ''u1'', ARoom ''A''])]"
proof -
  let ?ap = "\<lparr>users = [(''u1'', plain_user ''u1''), (''u2'', plain_user ''u2'')],
                     selfIsSpeaker = JBool False, audioConnection = False\<rparr>"
  have h1: "pk_op u1_speaks = ACTIVE_SPEAKER_CHANGE" by (simp add: u1_speaks_def)
  have h2: "getprop (pk_d u1_speaks) ''roomId'' = Inr (JStr ''A'')" by (simp add: u1_speaks_def)
  have h3: "rooms_get in_room_A (JStr ''A'') = Some 0"
    by (simp add: rooms_get_def in_room_A_def)
  have h4: "active (roomObjs in_room_A ! 0) = Some ?ap"
    by (simp add: in_room_A_def room_A_def)
  have h5: "distinct (map fst (pk_delta u1_speaks))" by (simp add: u1_speaks_def)
  have e: "events in_room_A = []" "room_id in_room_A 0 = ''A''"
    by (simp_all add: in_room_A_def client0_eq blank_def room_id_def room_A_def)
  have d: "pk_delta u1_speaks =
      [(''u1'', \<lparr>ob_speaking = True, ob_muted = False, ob_deafened = False\<rparr>),
       (''u2'', \<lparr>ob_speaking = False, ob_muted = False, ob_deafened = False\<rparr>)]"
    by (simp add: u1_speaks_def)
  show ?thesis
    using h1 h2 h3 h5 voice_state_changes [OF h1 h2 h3 h4 h5]
    by (simp add: e d differs_def plain_user_def)
qed

section \<open>Frames that are both a broadcast and a reply\<close>

text \<open>
  Claim C3 on the code: a MOD_CHANGED frame that carries the correlation id of the
  pending request \<open>r1\<close> and repeats the moderator flag the user already has. The case
  leaves \<^verbatim>\<open>wsEvent\<close> by \<^verbatim>\<open>return\<close>: the client is as before, no continuation was
  invoked and the request's timer is still pending. The same frame with a changed
  flag reaches the correlation blocks and invokes the success continuation 0.
\<close>

theorem mod_changed_return_skips_reply:
  "wsEvent mod_unchanged waiting_in_room_A = (None, waiting_in_room_A)
   \<and> tbl_get (callbacks waiting_in_room_A) ''r1''
       = Some [\<lparr>onSuccess = 0, onError = 1, timer = 0\<rparr>]
   \<and> calls waiting_in_room_A = [] \<and> pending waiting_in_room_A 0
   \<and> calls (snd (wsEvent mod_changed waiting_in_room_A)) = [(0, pk_d mod_changed)]
   \<and> \<not> pending (snd (wsEvent mod_changed waiting_in_room_A)) 0"
  by code_simp

section \<open>Room-scoped packets for an unknown room\<close>

lemma guarded_cases_skip_unknown_room:
  assumes "getprop (pk_d pkt) ''roomId'' = Inr rid" and "rooms_get s rid = None"
    and "pk_op pkt \<in> {USER_JOIN_ROOM, USER_LEFT_ROOM, ACTIVE_SPEAKER_CHANGE, MUTE_CHANGED,
           DEAFEN_CHANGED, JOINED_PEER, JOINED_SPEAKER, NOW_SPEAKER, HAND_RAISED, SPEAKER_ADDED,
           SPEAKER_REMOVED, LEFT_ROOM, MOD_CHANGED}"
  shows "dispatch pkt s = (Break, s)"
  using assms
  by (auto simp: dispatch_def with_room_def rd_def case_USER_JOIN_ROOM_def
      case_USER_LEFT_ROOM_def case_ACTIVE_SPEAKER_CHANGE_def case_MUTE_CHANGED_def
      case_DEAFEN_CHANGED_def case_JOINED_PEER_def case_JOINED_SPEAKER_def case_NOW_SPEAKER_def
      case_HAND_RAISED_def case_SPEAKER_ADDED_def case_SPEAKER_REMOVED_def case_LEFT_ROOM_def
      case_MOD_CHANGED_def)

text \<open>
  Claim C9 on the code: the Mirror holds room \<open>A\<close> only. A NEW_CREATOR packet for room
  \<open>B\<close> assigns to a property of the room that \<^verbatim>\<open>rooms.get\<close> did not find and raises a
  TypeError; a MSG_DELETED packet for room \<open>B\<close> does not look the room up and emits
  \<open>msgDeleted\<close> with a user of the current room, and raises a TypeError in a client
  without a current room. The guarded cases do nothing, as USER_JOIN_ROOM shows.
\<close>

theorem unknown_room_dereferenced:
  "rooms_get in_room_A (JStr ''B'') = None
   \<and> wsEvent new_creator_unknown in_room_A = (Some (TypeError ''creatorId''), in_room_A)
   \<and> fst (wsEvent msg_deleted_unknown in_room_A) = None
   \<and> events (snd (wsEvent msg_deleted_unknown in_room_A))
       = [(''msgDeleted'', [AVal (JStr ''m1''), AUser ''u1''])]
   \<and> fst (wsEvent msg_deleted_unknown client0) = Some (TypeError ''users'')
   \<and> wsEvent (new_creator_unknown\<lparr>pk_op := USER_JOIN_ROOM\<rparr>) in_room_A = (None, in_room_A)"
  by code_simp

section \<open>A second connect\<close>

text \<open>
  Claim C7 on the code: \<^verbatim>\<open>connect\<close> on a client whose socket is open emits the
  existing-connection error and goes on to \<^verbatim>\<open>initWS\<close>: a second socket is created
  and becomes the client's socket, while the first is still open.
\<close>

theorem connect_opens_second_socket:
  "ws connected = Some 0 \<and> sockets connected = [OPEN]
   \<and> sockets (connect connected) = [OPEN, CONNECTING]
   \<and> ws (connect connected) = Some 1
   \<and> last (events (connect connected))
       = (''error'', [AErr (Error ''Existing connection detected'')])"
  by code_simp

section \<open>The heartbeat after a missed pong\<close>

text \<open>
  Claim C10 on the code: the heartbeat fired once and sent a ping; no pong arrived.
  When it fires again it disconnects, which sets the socket reference to null, and
  then goes on to \<^verbatim>\<open>this.ws.send("ping")\<close>: the callback ends in a TypeError.
\<close>

theorem heartbeat_sends_on_null_socket:
  "ws pinged = Some 0 \<and> \<not> lastPingAck pinged
   \<and> fst (fireTimer env0 1 pinged) = Some (TypeError ''send'')
   \<and> ws (snd (fireTimer env0 1 pinged)) = None"
  by code_simp

section \<open>Disconnecting\<close>

lemma fold_clear_index:
  "\<exists>P. fold (\<lambda>kv st. if c kv then fold (\<lambda>f. clearTimer (timer f)) (snd kv) st else st) xs st =
     st\<lparr>timers := filter P (timers st)\<rparr>"
proof (induction xs arbitrary: st)
  case Nil
  show ?case by (rule exI [of _ "\<lambda>t. True"]) simp
next
  case (Cons kv xs)
  let ?st1 = "if c kv then fold (\<lambda>f. clearTimer (timer f)) (snd kv) st else st"
  have "\<exists>Q. ?st1 = st\<lparr>timers := filter Q (timers st)\<rparr>"
  proof (cases "c kv")
    case True
    then show ?thesis by (simp add: fold_clearTimer) blast
  next
    case False
    then show ?thesis by (intro exI [of _ "\<lambda>t. True"]) simp
  qed
  then obtain Q where q: "?st1 = st\<lparr>timers := filter Q (timers st)\<rparr>" ..
  from Cons.IH [of ?st1] obtain P where
    p: "fold (\<lambda>kv st. if c kv then fold (\<lambda>f. clearTimer (timer f)) (snd kv) st else st) xs ?st1 =
        ?st1\<lparr>timers := filter P (timers ?st1)\<rparr>" ..
  have "fold (\<lambda>kv st. if c kv then fold (\<lambda>f. clearTimer (timer f)) (snd kv) st else st) (kv # xs) st
      = ?st1\<lparr>timers := filter P (timers ?st1)\<rparr>"
    using p by simp
  also have "\<dots> = st\<lparr>timers := filter (\<lambda>t. Q t \<and> P t) (timers st)\<rparr>"
    by (subst q)+ simp
  finally show ?case by blast
qed

lemma clearCallbackTimers_eq:
  "\<exists>P. clearCallbackTimers s = s\<lparr>timers := filter P (timers s)\<rparr>"
  unfolding clearCallbackTimers_def by (rule fold_clear_index)

lemma clearPingInterval_eq:
  "clearPingInterval s = s\<lparr>timers := filter (\<lambda>t. Some (fst t) \<noteq> pingInterval s) (timers s)\<rparr>"
  by (simp add: clearPingInterval_def clearTimer_def split: option.splits)

lemma closeSocket_eq:
  "closeSocket en err w s =
     s\<lparr>sockets := closed_sockets en w (sockets s),
       events := events s @ close_events en err w\<rparr>"
  by (simp add: closeSocket_def emit_def socket_close_def closed_sockets_def close_events_def
      split: option.splits)

lemma teardown_eq:
  "\<exists>P. reset (closeSocket en err (ws s)
                 (clearCallbackTimers (clearPingInterval
                    (s\<lparr>ws := None, ready := False, connecting := False\<rparr>)))) =
     (reset s)\<lparr>ws := None,
       sockets := closed_sockets en (ws s) (sockets s),
       events := events s @ close_events en err (ws s),
       timers := filter P (filter (\<lambda>t. Some (fst t) \<noteq> pingInterval s) (timers s))\<rparr>"
proof -
  let ?a = "s\<lparr>ws := None, ready := False, connecting := False\<rparr>"
  let ?b = "?a\<lparr>timers := filter (\<lambda>t. Some (fst t) \<noteq> pingInterval s) (timers s)\<rparr>"
  have a: "clearPingInterval ?a = ?b" by (simp add: clearPingInterval_eq)
  from clearCallbackTimers_eq [of ?b] obtain P where
    b: "clearCallbackTimers ?b = ?b\<lparr>timers := filter P (timers ?b)\<rparr>" ..
  have "reset (closeSocket en err (ws s) (clearCallbackTimers (clearPingInterval ?a))) =
     (reset s)\<lparr>ws := None,
       sockets := closed_sockets en (ws s) (sockets s),
       events := events s @ close_events en err (ws s),
       timers := filter P (filter (\<lambda>t. Some (fst t) \<noteq> pingInterval s) (timers s))\<rparr>"
    unfolding a b closeSocket_eq
    by (simp add: reset_def)
  then show ?thesis by (rule exI [of _ P])
qed

lemma queueReconnect_eq:
  "queueReconnect en s =
     s\<lparr>events := events s @ [(''debug'', [AStr ''Queueing reconnect in '', ANum (reconnectInterval s),
                           AStr ''ms | Attempt '', ANum (connectAttempts s)])],
       timers := timers s @ [(nextTimer s, reconnectInterval s, Reconnect)],
       nextTimer := Suc (nextTimer s),
       reconnectInterval :=
         min (round (real_of_int (reconnectInterval s) * (random en * 2 + 1))) 60000\<rparr>"
  by (simp add: queueReconnect_def emit_def setTimer_def)

lemma disconnect_on_auto:
  shows "\<exists>P. timers (disconnect en ReconnectAuto err s) =
            filter P (filter (\<lambda>t. Some (fst t) \<noteq> pingInterval s) (timers s))
              @ (if opt_autoReconnect s then [(nextTimer s, reconnectInterval s, Reconnect)] else [])"
    and "reconnectInterval (disconnect en ReconnectAuto err s) =
           (if opt_autoReconnect s
            then min (round (real_of_int (reconnectInterval s) * (random en * 2 + 1))) 60000
            else reconnectInterval s)"
    and "events (disconnect en ReconnectAuto err s) =
           events s @ close_events en err (ws s)
             @ (if opt_autoReconnect s
                then [(''debug'', [AStr ''Queueing reconnect in '', ANum (reconnectInterval s),
                             AStr ''ms | Attempt '', ANum (connectAttempts s)])] else [])"
    and "ws (disconnect en ReconnectAuto err s) = None"
    and "sockets (disconnect en ReconnectAuto err s) = closed_sockets en (ws s) (sockets s)"
    and "\<not> ready (disconnect en ReconnectAuto err s)"
    and "\<not> connecting (disconnect en ReconnectAuto err s)"
proof -
  define T where "T = reset (closeSocket en err (ws s)
                 (clearCallbackTimers (clearPingInterval
                    (s\<lparr>ws := None, ready := False, connecting := False\<rparr>))))"
  from teardown_eq [of en err s] obtain P where
    t: "T = (reset s)\<lparr>ws := None,
       sockets := closed_sockets en (ws s) (sockets s),
       events := events s @ close_events en err (ws s),
       timers := filter P (filter (\<lambda>t. Some (fst t) \<noteq> pingInterval s) (timers s))\<rparr>"
    unfolding T_def ..
  have auto: "opt_autoReconnect T = opt_autoReconnect s" by (simp add: t reset_def)
  have d: "disconnect en ReconnectAuto err s = (if opt_autoReconnect s then queueReconnect en T else T)"
    unfolding disconnect_def T_def [symmetric] Let_def using auto by simp
  have f: "timers T = filter P (filter (\<lambda>t. Some (fst t) \<noteq> pingInterval s) (timers s))"
    "nextTimer T = nextTimer s" "reconnectInterval T = reconnectInterval s"
    "events T = events s @ close_events en err (ws s)" "connectAttempts T = connectAttempts s"
    "ws T = None" "sockets T = closed_sockets en (ws s) (sockets s)"
    "\<not> ready T" "\<not> connecting T"
    by (simp_all add: t reset_def)
  have "timers (disconnect en ReconnectAuto err s) =
            filter P (filter (\<lambda>t. Some (fst t) \<noteq> pingInterval s) (timers s))
              @ (if opt_autoReconnect s then [(nextTimer s, reconnectInterval s, Reconnect)] else [])"
    by (simp add: d queueReconnect_eq f)
  then show "\<exists>P. timers (disconnect en ReconnectAuto err s) =
            filter P (filter (\<lambda>t. Some (fst t) \<noteq> pingInterval s) (timers s))
              @ (if opt_autoReconnect s then [(nextTimer s, reconnectInterval s, Reconnect)] else [])"
    by (rule exI [of _ P])
  show "reconnectInterval (disconnect en ReconnectAuto err s) =
           (if opt_autoReconnect s
            then min (round (real_of_int (reconnectInterval s) * (random en * 2 + 1))) 60000
            else reconnectInterval s)"
    by (simp add: d queueReconnect_eq f)
  show "events (disconnect en ReconnectAuto err s) =
           events s @ close_events en err (ws s)
             @ (if opt_autoReconnect s
                then [(''debug'', [AStr ''Queueing reconnect in '', ANum (reconnectInterval s),
                             AStr ''ms | Attempt '', ANum (connectAttempts s)])] else [])"
    by (simp add: d queueReconnect_eq f)
  show "ws (disconnect en ReconnectAuto err s) = None"
    by (simp add: d queueReconnect_eq f)
  show "sockets (disconnect en ReconnectAuto err s) = closed_sockets en (ws s) (sockets s)"
    by (simp add: d queueReconnect_eq f)
  show "\<not> ready (disconnect en ReconnectAuto err s)"
    by (simp add: d queueReconnect_eq f)
  show "\<not> connecting (disconnect en ReconnectAuto err s)"
    by (simp add: d queueReconnect_eq f)
qed


lemma jitter_bounds:
  fixes prev :: int and r :: real
  assumes "0 \<le> prev" "1 \<le> r" "r < 3"
  shows "prev \<le> round (real_of_int prev * r) \<and> round (real_of_int prev * r) \<le> 3 * prev"
proof
  have "real_of_int prev * 1 \<le> real_of_int prev * r"
    using assms by (intro mult_left_mono) simp_all
  then have "round (real_of_int prev) \<le> round (real_of_int prev * r)"
    by (intro round_mono) simp
  then show "prev \<le> round (real_of_int prev * r)" by simp
  have "real_of_int prev * r \<le> real_of_int prev * 3"
    using assms by (intro mult_left_mono) simp_all
  then have "real_of_int prev * r \<le> real_of_int (3 * prev)" by simp
  then have "round (real_of_int prev * r) \<le> round (real_of_int (3 * prev))" by (rule round_mono)
  then show "round (real_of_int prev * r) \<le> 3 * prev" by (simp only: round_of_int)
qed


section \<open>The reconnect interval stays in range\<close>

text \<open>
  The constructor sets the reconnect interval to 1000; \<^verbatim>\<open>wsEvent\<close> leaves it alone
  or, for AUTH_REPLY, sets it to 1000; \<^verbatim>\<open>disconnect\<close> keeps it within \<open>[0, 60000]\<close>.
  No other function assigns it.
\<close>

lemma rd_interval:
  "(\<And>v. reconnectInterval (snd (k v)) = reconnectInterval s) \<Longrightarrow>
   reconnectInterval (snd (rd r s k)) = reconnectInterval s"
  by (simp add: rd_def split: sum.splits)

lemma with_room_interval:
  "(\<And>a. reconnectInterval (snd (body a)) = reconnectInterval s) \<Longrightarrow>
   reconnectInterval (snd (with_room pkt s body)) = reconnectInterval s"
  by (simp add: with_room_def rd_def split: sum.splits option.splits)

lemma with_active_interval:
  "(\<And>ap. reconnectInterval (snd (k ap)) = reconnectInterval s) \<Longrightarrow>
   reconnectInterval (snd (with_active a w s k)) = reconnectInterval s"
  by (simp add: with_active_def split: option.splits)

lemma with_user_interval:
  "(\<And>u. reconnectInterval (snd (k u)) = reconnectInterval s) \<Longrightarrow>
   reconnectInterval (snd (with_user pkt ap s k)) = reconnectInterval s"
  by (simp add: with_user_def rd_def split: sum.splits option.splits)

lemma small_interval:
  "reconnectInterval (emit n args s) = reconnectInterval s"
  "reconnectInterval (set_active a ap s) = reconnectInterval s"
  "reconnectInterval (set_room a r s) = reconnectInterval s"
  "reconnectInterval (put_user a ap u s) = reconnectInterval s"
  "reconnectInterval (fst (room_updateVoiceStates a pkt s)) = reconnectInterval s"
  "reconnectInterval (cache_recv pkt s) = reconnectInterval s"
  "reconnectInterval (cache_send pkt s) = reconnectInterval s"
  "reconnectInterval (cache_router pkt s) = reconnectInterval s"
  "reconnectInterval (rooms_add r s) = reconnectInterval s"
  by (simp_all add: emit_def set_active_def set_room_def put_user_def room_updateVoiceStates_def
      cache_recv_def cache_send_def cache_router_def rooms_add_def
      split: option.splits prod.splits sum.splits)

lemma fold_emit_interval:
  "reconnectInterval (fold (\<lambda>u. emit n (g u)) xs s) = reconnectInterval s"
  by (simp add: fold_emit)

lemma audio_interval:
  "(\<And>s1. reconnectInterval s1 = reconnectInterval s \<Longrightarrow> reconnectInterval (snd (k s1)) = reconnectInterval s) \<Longrightarrow>
   reconnectInterval (snd (audio_disconnect_if_self a ap uid s k)) = reconnectInterval s"
  by (simp add: audio_disconnect_if_self_def rd_def split: sum.splits)

lemma dispatch_interval:
  "reconnectInterval (snd (dispatch pkt s)) =
     (if pk_op pkt = AUTH_REPLY then 1000 else reconnectInterval s)"
proof (cases "pk_op pkt")
  case AUTH_REPLY
  then show ?thesis
    by (simp add: small_interval fold_emit_interval dispatch_def case_AUTH_REPLY_def Let_def setTimer_def clearTimer_def emit_def
        split: option.splits)
next
  case NEW_TOKENS
  then show ?thesis
    by (simp add: small_interval fold_emit_interval dispatch_def case_NEW_TOKENS_def rd_interval)
next
  case FETCH_DONE
  then show ?thesis
    by (simp add: small_interval fold_emit_interval dispatch_def case_FETCH_DONE_def rd_interval)
next
  case USER_JOIN_ROOM
  then show ?thesis
    by (simp add: small_interval fold_emit_interval dispatch_def case_USER_JOIN_ROOM_def rd_interval with_room_interval
        with_active_interval)
next
  case USER_LEFT_ROOM
  then show ?thesis
    by (simp add: small_interval fold_emit_interval dispatch_def case_USER_LEFT_ROOM_def rd_interval with_room_interval
        with_active_interval split: option.splits)
next
  case ACTIVE_SPEAKER_CHANGE
  then show ?thesis
    by (simp add: small_interval fold_emit_interval dispatch_def case_ACTIVE_SPEAKER_CHANGE_def with_room_interval
        with_active_interval room_updateVoiceStates_def set_active_def set_room_def
        split: prod.splits option.splits)
next
  case MUTE_CHANGED
  then show ?thesis
    by (simp add: small_interval fold_emit_interval dispatch_def case_MUTE_CHANGED_def rd_interval with_room_interval
        with_active_interval with_user_interval)
next
  case DEAFEN_CHANGED
  then show ?thesis
    by (simp add: small_interval fold_emit_interval dispatch_def case_DEAFEN_CHANGED_def rd_interval with_room_interval
        with_active_interval with_user_interval)
next
  case NEW_CHAT_MSG
  then show ?thesis
    by (simp add: small_interval fold_emit_interval dispatch_def case_NEW_CHAT_MSG_def rd_interval)
next
  case MSG_DELETED
  then show ?thesis
    by (simp add: small_interval fold_emit_interval dispatch_def case_MSG_DELETED_def rd_interval with_active_interval
        split: option.splits)
next
  case JOINED_PEER
  then show ?thesis
    by (simp add: small_interval fold_emit_interval dispatch_def case_JOINED_PEER_def with_room_interval)
next
  case JOINED_SPEAKER
  then show ?thesis
    by (simp add: small_interval fold_emit_interval dispatch_def case_JOINED_SPEAKER_def with_room_interval)
next
  case NOW_SPEAKER
  then show ?thesis
    by (simp add: small_interval fold_emit_interval dispatch_def case_NOW_SPEAKER_def Let_def)
       (rule with_room_interval, simp add: small_interval with_active_def split: option.splits)
next
  case HAND_RAISED
  then show ?thesis
    by (simp add: small_interval fold_emit_interval dispatch_def case_HAND_RAISED_def rd_interval with_room_interval
        with_active_interval with_user_interval)
next
  case SPEAKER_ADDED
  then show ?thesis
    by (simp add: small_interval fold_emit_interval dispatch_def case_SPEAKER_ADDED_def rd_interval with_room_interval
        with_active_interval with_user_interval)
next
  case SPEAKER_REMOVED
  then show ?thesis
    by (simp add: small_interval fold_emit_interval dispatch_def case_SPEAKER_REMOVED_def rd_interval with_room_interval
        with_active_interval with_user_interval audio_interval)
next
  case LEFT_ROOM
  then show ?thesis
    by (simp add: small_interval fold_emit_interval dispatch_def case_LEFT_ROOM_def rd_interval with_room_interval
        with_active_interval audio_interval Let_def split: option.splits)
next
  case MOD_CHANGED
  then show ?thesis
    by (simp add: small_interval fold_emit_interval dispatch_def case_MOD_CHANGED_def rd_interval with_room_interval
        with_active_interval with_user_interval)
next
  case NEW_CREATOR
  then show ?thesis
    by (simp add: small_interval fold_emit_interval dispatch_def case_NEW_CREATOR_def rd_interval split: option.splits)
next
  case (OtherOp name)
  then show ?thesis
    by (simp add: small_interval fold_emit_interval dispatch_def case_default_def emit_def)
qed


lemma wsEvent_interval:
  "reconnectInterval (snd (wsEvent pkt s)) =
     (if pk_op pkt = AUTH_REPLY then 1000 else reconnectInterval s)"
  using dispatch_interval [of pkt s]
  by (auto simp: wsEvent_def resolveRefs_fields split: prod.splits ctl.splits)

lemma disconnect_interval_bounds:
  assumes "0 \<le> random en" "random en < 1"
    and "0 \<le> reconnectInterval s" "reconnectInterval s \<le> 60000"
  shows "0 \<le> reconnectInterval (disconnect en opt err s)
       \<and> reconnectInterval (disconnect en opt err s) \<le> 60000"
proof -
  define T where "T = reset (closeSocket en err (ws s)
                 (clearCallbackTimers (clearPingInterval
                    (s\<lparr>ws := None, ready := False, connecting := False\<rparr>))))"
  from teardown_eq [of en err s] obtain P where
    t: "T = (reset s)\<lparr>ws := None,
       sockets := closed_sockets en (ws s) (sockets s),
       events := events s @ close_events en err (ws s),
       timers := filter P (filter (\<lambda>t. Some (fst t) \<noteq> pingInterval s) (timers s))\<rparr>"
    unfolding T_def ..
  have f: "reconnectInterval T = reconnectInterval s" by (simp add: t reset_def)
  have d: "disconnect en opt err s =
      (if opt = ReconnectAuto \<and> opt_autoReconnect T then queueReconnect en T
       else if opt = ReconnectFalsy then hardReset T else T)"
    unfolding disconnect_def T_def [symmetric] Let_def by simp
  have r: "1 \<le> random en * 2 + 1" "random en * 2 + 1 < 3" using assms by simp_all
  from jitter_bounds [OF assms(3) r] assms(3)
  have q: "0 \<le> reconnectInterval (queueReconnect en T)
         \<and> reconnectInterval (queueReconnect en T) \<le> 60000"
    by (simp add: queueReconnect_eq f)
  have h: "reconnectInterval (hardReset T) = 1000" by (simp add: hardReset_def)
  show ?thesis unfolding d using q h f assms(3,4) by simp
qed

lemma constructor_interval:
  "constructor token = Inr c \<Longrightarrow> reconnectInterval c = 1000"
  by (auto simp: constructor_def hardReset_def split: if_splits jsval.splits sum.splits)

section \<open>Reconnect backoff\<close>



section \<open>The heartbeat protocol\<close>

lemma heartbeat_missed:
  assumes "\<not> lastPingAck u"
  shows "heartbeat en u =
     (Some (TypeError ''send''),
      (disconnect en ReconnectAuto (Some (AErr missed_pong)) u)
        \<lparr>lastPingAck := False, lastPingSent := Some (now en)\<rparr>)"
  using assms by (simp add: heartbeat_def Let_def disconnect_on_auto(4))

lemma close_events_Some:
  "(''disconnect'', [e]) \<in> set (close_events en (Some e) (Some i))"
  by (simp add: close_events_def split: option.splits)

lemma closed_sockets_nth:
  "i < length sk \<Longrightarrow> closeError en = None \<Longrightarrow>
   closed_sockets en (Some i) sk ! i = (if sk ! i = CLOSED then CLOSED else CLOSING)"
  by (simp add: closed_sockets_def)

text \<open>
  Claim C6. A "pong" frame, in a client that has sent a ping at \<open>t0\<close>, sets the
  latency to the time of reception minus \<open>t0\<close> and sets \<^verbatim>\<open>lastPingAck\<close> (the
  client no longer awaits an acknowledgement). When the heartbeat interval fires
  while \<^verbatim>\<open>lastPingAck\<close> is still false, in a client with a socket, the client is
  torn down: the socket reference is null, the client is not ready, the heartbeat
  timer is cleared, the socket is closing when \<^verbatim>\<open>ws.close\<close> returns, and the
  disconnect notification carries the missed-acknowledgement error; and if
  auto-reconnect is enabled a retry is pending after the reconnect interval. \<open>u'\<close> is
  the client as the callback leaves it.
\<close>

theorem heartbeat_protocol:
  fixes s u :: client and en :: env
  assumes sent: "lastPingSent s = Some t0"
    and fresh: "\<forall>t \<in> set (timers u). fst t < nextTimer u"
    and hb: "find (\<lambda>t. fst t = h) (timers u) = Some (h, d, Heartbeat)"
    and ping: "pingInterval u = Some h"
    and noack: "\<not> lastPingAck u"
    and sock: "ws u = Some i" "i < length (sockets u)"
  defines "u' \<equiv> snd (fireTimer en h u)"
  shows "on_message en Pong s =
           (None, s\<lparr>lastPingAck := True, lastPingReceived := Some (now en),
                    latency := Some (now en - t0)\<rparr>)
    \<and> ws u' = None \<and> \<not> ready u' \<and> \<not> pending u' h
    \<and> (closeError en = None \<longrightarrow>
          sockets u' ! i = (if sockets u ! i = CLOSED then CLOSED else CLOSING))
    \<and> (''disconnect'', [AErr missed_pong]) \<in> set (events u')
    \<and> (opt_autoReconnect u \<longrightarrow>
          (nextTimer u, reconnectInterval u, Reconnect) \<in> set (timers u'))"
proof -
  let ?d = "disconnect en ReconnectAuto (Some (AErr missed_pong)) u"
  have c0: "on_message en Pong s =
           (None, s\<lparr>lastPingAck := True, lastPingReceived := Some (now en),
                    latency := Some (now en - t0)\<rparr>)"
    by (simp add: on_message_def sent)
  have "fireTimer en h u = heartbeat en u"
    by (simp add: fireTimer_def hb runTask_def)
  then have u': "u' = ?d\<lparr>lastPingAck := False, lastPingSent := Some (now en)\<rparr>"
    by (simp add: u'_def heartbeat_missed [OF noack])
  have c1: "ws u' = None" by (simp add: u' disconnect_on_auto(4))
  have c2: "\<not> ready u'" by (simp add: u' disconnect_on_auto(6))
  from disconnect_on_auto(1) [of en "Some (AErr missed_pong)" u] obtain P where
    t: "timers ?d = filter P (filter (\<lambda>t. Some (fst t) \<noteq> pingInterval u) (timers u))
              @ (if opt_autoReconnect u then [(nextTimer u, reconnectInterval u, Reconnect)] else [])"
    ..
  from hb have "(h, d, Heartbeat) \<in> set (timers u)" by (auto simp: find_Some_iff in_set_conv_nth)
  with fresh have "h < nextTimer u" by force
  then have c3: "\<not> pending u' h"
    by (auto simp: pending_def u' t ping)
  have c4: "closeError en = None \<longrightarrow>
          sockets u' ! i = (if sockets u ! i = CLOSED then CLOSED else CLOSING)"
    using sock by (simp add: u' disconnect_on_auto(5) closed_sockets_nth)
  have c5: "(''disconnect'', [AErr missed_pong]) \<in> set (events u')"
    using close_events_Some [of "AErr missed_pong" en i]
    by (simp add: u' disconnect_on_auto(3) sock(1))
  have c6: "opt_autoReconnect u \<longrightarrow>
          (nextTimer u, reconnectInterval u, Reconnect) \<in> set (timers u')"
    by (simp add: u' t)
  from c0 c1 c2 c3 c4 c5 c6 show ?thesis by simp
qed

theorem heartbeat_protocol_witness:
  "lastPingSent pinged = Some 5000 \<and> pingInterval pinged = Some 1 \<and> \<not> lastPingAck pinged
   \<and> ws pinged = Some 0
   \<and> latency (snd (on_message env1 Pong pinged)) = Some 40
   \<and> lastPingAck (snd (on_message env1 Pong pinged))
   \<and> ws (snd (fireTimer env1 1 pinged)) = None
   \<and> sockets (snd (fireTimer env1 1 pinged)) ! 0 = CLOSING
   \<and> (2, 1000, Reconnect) \<in> set (timers (snd (fireTimer env1 1 pinged)))"
proof -
  have h1: "lastPingSent pinged = Some 5000" by code_simp
  have h2: "\<forall>t \<in> set (timers pinged). fst t < nextTimer pinged" by code_simp
  have h3: "find (\<lambda>t. fst t = 1) (timers pinged) = Some (1, 8000, Heartbeat)" by code_simp
  have h4: "pingInterval pinged = Some 1" by code_simp
  have h5: "\<not> lastPingAck pinged" by code_simp
  have h6: "ws pinged = Some 0" by code_simp
  have h7: "0 < length (sockets pinged)" by code_simp
  have v: "nextTimer pinged = 2" "reconnectInterval pinged = 1000" "sockets pinged ! 0 = OPEN"
    "opt_autoReconnect pinged"
    by code_simp+
  have e: "closeError env1 = None" "now env1 = 5040" by (simp_all add: env1_def)
  show ?thesis
    using h1 h4 h5 h6 heartbeat_protocol [OF h1 h2 h3 h4 h5 h6 h7, of env1]
    by (simp add: v e)
qed

section \<open>How errors are surfaced\<close>





end
